theory Spec2Isabelle
  imports Main "HOL-Library.Word"
begin

section \<open>Data model\<close>

text \<open>
  The consensus core of the beacon node: the block pipeline of package \<open>blockchain\<close>
  (\<open>block_processing.go\<close>, \<open>service.go\<close>) and the fork-choice store of package
  \<open>forkchoice\<close>. Go's \<open>uint64\<close> is a 64-bit word (arithmetic wraps), a byte slice
  \<open>[]byte\<close> is a list of bytes (\<open>nil\<close> and the empty slice are both \<open>[]\<close>, as
  \<open>bytes.Equal\<close> and \<open>len\<close> see them), and a fixed array \<open>[32]byte\<close> is the list of its
  32 bytes.

  Modelled from the spec: the protobuf messages \<open>pb.Checkpoint\<close>, \<open>pb.LatestMessage\<close>,
  \<open>pb.AttestationData\<close>, \<open>pb.Attestation\<close>, \<open>pb.IndexedAttestation\<close>, \<open>pb.Deposit\<close>,
  \<open>pb.BeaconBlockBody\<close>, \<open>pb.BeaconBlock\<close>, \<open>pb.Validator\<close>, \<open>pb.BeaconState\<close>,
  \<open>pb.AttestationTarget\<close> and \<open>pb.BeaconBlockAnnounce\<close> (the generated Go types are
  not under \<open>src/\<close>). The records below carry the fields of the data model that the
  source reads or writes, under the names the source uses. A message passed in is not
  \<open>nil\<close>, and neither are the checkpoints inside a state and the data inside an
  attestation; a pointer the source can see \<open>nil\<close> is an option.
\<close>

type_synonym byte = "8 word"
type_synonym bytes = "byte list"
type_synonym uint64 = "64 word"

text \<open>
  Errors as values. The kinds the design names are constructors of their own;
  \<open>Wrap msg e\<close> is \<open>fmt.Errorf("msg: %v", e)\<close>, \<open>Err msg\<close> an error built from a
  message alone, \<open>External msg\<close> an error raised inside a collaborator, and
  \<open>Panic msg\<close> a Go run-time panic (nil dereference, index out of range).

  A panic is not an error value of the program: it passes through every caller. So a
  caller that wraps the error of a call (\<open>wrap\<close>) leaves a panic as it is, a caller
  that drops an error does not drop a panic, and a call that panics returns no value
  next to it (\<open>unless_panic\<close>); what it had changed before stays changed. The
  collaborators return errors and do not panic.
\<close>

datatype error =
    UnknownParent
  | StatePreload error
  | GenesisReplay
  | StateRootMismatch
  | BlockFailedProcessingErr error
  | SlotUnderflow
  | FromFuture
  | FromFutureEpoch
  | NotYetUsable
  | UnknownTarget
  | NotDescendantOfFinalized
  | InvalidAttestation
  | Blacklisted
  | NotFound
  | StoreIO
  | External string
  | Err string
  | Wrap string error
  | Panic string

definition isPanic :: "error \<Rightarrow> bool" where
  "isPanic e = (case e of Panic m \<Rightarrow> True | _ \<Rightarrow> False)"

definition wrap :: "string \<Rightarrow> error \<Rightarrow> error" where
  "wrap msg e = (if isPanic e then e else Wrap msg e)"

definition unless_panic :: "error \<Rightarrow> 'a option \<Rightarrow> 'a option" where
  "unless_panic e v = (if isPanic e then None else v)"

record Checkpoint =
  Epoch :: uint64
  Root :: bytes

text \<open>\<open>pb.LatestMessage{Epoch, Root}\<close>; the fields carry a prefix to keep them apart
  from the checkpoint's.\<close>

record LatestMessage =
  msg_Epoch :: uint64
  msg_Root :: bytes

record AttestationData =
  BeaconBlockRoot :: bytes
  Source :: Checkpoint
  Target :: Checkpoint

record Attestation =
  AggregationBits :: bytes
  Data :: AttestationData
  CustodyBits :: bytes
  att_Signature :: bytes

record IndexedAttestation =
  CustodyBit_0Indices :: "uint64 list"
  CustodyBit_1Indices :: "uint64 list"
  ia_Data :: "AttestationData option"
  ia_Signature :: bytes

datatype Deposit = Deposit (DepositProof: "bytes list") (DepositData: bytes)

record BeaconBlockBody =
  RandaoReveal :: bytes
  Attestations :: "Attestation list"
  Deposits :: "Deposit list"

text \<open>\<open>Body\<close> is a pointer in the Go struct: \<open>None\<close> is \<open>nil\<close>.\<close>

record BeaconBlock =
  Slot :: uint64
  ParentRoot :: bytes
  StateRoot :: bytes
  Body :: "BeaconBlockBody option"
  Signature :: bytes

record Validator =
  PublicKey :: bytes
  EffectiveBalance :: uint64

record BeaconState =
  GenesisTime :: uint64
  state_Slot :: uint64
  Validators :: "Validator list"
  PreviousJustifiedCheckpoint :: Checkpoint
  CurrentJustifiedCheckpoint :: Checkpoint
  FinalizedCheckpoint :: Checkpoint
  Eth1DepositIndex :: uint64

record AttestationTarget =
  tgt_Slot :: uint64
  tgt_BeaconBlockRoot :: bytes
  tgt_ParentRoot :: bytes

record BeaconBlockAnnounce =
  Hash :: bytes
  SlotNumber :: uint64

datatype TransitionConfig = DefaultConfig | TransitionConfig (VerifySignatures: bool)

text \<open>The zero value \<open>&pb.BeaconBlock{}\<close> and the zero \<open>&pb.IndexedAttestation{}\<close>.\<close>

definition zero_BeaconBlock :: BeaconBlock where
  "zero_BeaconBlock =
     \<lparr>Slot = 0, ParentRoot = [], StateRoot = [], Body = None, Signature = []\<rparr>"

definition zero_IndexedAttestation :: IndexedAttestation where
  "zero_IndexedAttestation =
     \<lparr>CustodyBit_0Indices = [], CustodyBit_1Indices = [], ia_Data = None, ia_Signature = []\<rparr>"

section \<open>The chain store\<close>

record FFGRecords =
  justifiedBlock :: "BeaconBlock option"
  finalizedBlock :: "BeaconBlock option"
  justifiedState :: "BeaconState option"
  finalizedState :: "BeaconState option"

text \<open>
  Modelled from the spec: the type \<open>db.BeaconDB\<close> (package \<open>db\<close> is not under
  \<open>src/\<close>, only its block tests are). The fields are the logical namespaces of the
  persisted layout: \<open>block/{root}\<close>, the in-memory block cache in front of it,
  \<open>evil/{root}\<close>, \<open>highest_block_slot\<close>, \<open>attestation_target/{root}\<close>, \<open>state/{root}\<close>,
  the historical states keyed by block root, \<open>checkpoint_state/{epoch,root}\<close>,
  \<open>latest_msg/{validator_idx}\<close>, \<open>validator_pubkey_index/{pubkey}\<close>, the pending-deposit
  queue and the justified/finalized block and state records.
\<close>

record BeaconDB =
  blocks :: "bytes \<rightharpoonup> BeaconBlock"
  blockCache :: "bytes \<rightharpoonup> BeaconBlock"
  evil :: "bytes set"
  highestBlockSlot :: uint64
  attestationTargets :: "bytes \<rightharpoonup> AttestationTarget"
  states :: "bytes \<rightharpoonup> BeaconState"
  historicalStates :: "bytes \<rightharpoonup> BeaconState"
  checkpointStates :: "Checkpoint \<rightharpoonup> BeaconState"
  latestMessages :: "uint64 \<rightharpoonup> LatestMessage"
  validatorIndex :: "bytes \<rightharpoonup> int"
  pendingDeposits :: "Deposit list"
  ffgRecords :: FFGRecords

text \<open>
  The collaborators the core calls and whose code is outside the repository's files
  under \<open>src/\<close>: the SSZ hashing library, the core state transition, the helpers of
  \<open>core/helpers\<close> and \<open>core/blocks\<close>, the protocol constants of \<open>shared/params\<close>, the
  deposit watcher, and the store's state reconstruction. They are parameters of the
  model; every one that returns an \<open>error\<close> in Go returns a sum here.
\<close>

record env =
  SigningRoot :: "BeaconBlock \<Rightarrow> error + bytes"
  HashTreeRoot_block :: "BeaconBlock \<Rightarrow> error + bytes"
  HashTreeRoot_state :: "BeaconState \<Rightarrow> error + bytes"
  ExecuteStateTransition ::
    "BeaconState \<Rightarrow> BeaconBlock option \<Rightarrow> TransitionConfig \<Rightarrow> error + BeaconState"
  ProcessSlots :: "BeaconState \<Rightarrow> uint64 \<Rightarrow> error + BeaconState"
  AttestationDataSlot :: "BeaconState \<Rightarrow> AttestationData \<Rightarrow> error + uint64"
  VerifyIndexedAttestation :: "IndexedAttestation \<Rightarrow> bool \<Rightarrow> error option"
  ActiveValidatorIndices :: "BeaconState \<Rightarrow> uint64 \<Rightarrow> error + uint64 list"
  IsValidBlock ::
    "BeaconState option \<Rightarrow> BeaconBlock \<Rightarrow> (bytes \<Rightarrow> bool) \<Rightarrow> uint64 \<Rightarrow> error option"
  HistoricalStateFromSlot :: "BeaconDB \<Rightarrow> uint64 \<Rightarrow> bytes \<Rightarrow> error + BeaconState option"
  updateFFGCheckPts :: "BeaconDB \<Rightarrow> BeaconState \<Rightarrow> error + FFGRecords"
  BatchUpdateLatestAttestation :: "Attestation list \<Rightarrow> error option"
  SecondsPerSlot :: uint64
  SlotsPerEpoch :: uint64

text \<open>
  Modelled from the spec: \<open>bytesutil.ToBytes32\<close> (package \<open>shared/bytesutil\<close> is not
  under \<open>src/\<close>). Roots are fixed-width, 32 bytes: the conversion of a byte slice to a
  \<open>[32]byte\<close> key keeps its first 32 bytes and fills the rest with zero bytes.
\<close>

definition ToBytes32 :: "bytes \<Rightarrow> bytes" where
  "ToBytes32 x = take 32 (x @ replicate 32 0)"

text \<open>
  Modelled from the spec: \<open>helpers.StartSlot\<close>, \<open>helpers.SlotToEpoch\<close>,
  \<open>helpers.CurrentEpoch\<close> and \<open>helpers.IsEpochStart\<close> (package \<open>core/helpers\<close> is not
  under \<open>src/\<close>): an epoch is a fixed number \<open>SLOTS_PER_EPOCH\<close> of slots, and
  \<open>start_slot(epoch)\<close> is its first slot.
\<close>

definition StartSlot :: "env \<Rightarrow> uint64 \<Rightarrow> uint64" where
  "StartSlot env epoch = epoch * SlotsPerEpoch env"

definition SlotToEpoch :: "env \<Rightarrow> uint64 \<Rightarrow> uint64" where
  "SlotToEpoch env slot = slot div SlotsPerEpoch env"

definition CurrentEpoch :: "env \<Rightarrow> BeaconState \<Rightarrow> uint64" where
  "CurrentEpoch env st = SlotToEpoch env (state_Slot st)"

definition IsEpochStart :: "env \<Rightarrow> uint64 \<Rightarrow> bool" where
  "IsEpochStart env slot = (slot mod SlotsPerEpoch env = 0)"

text \<open>
  Modelled from the spec: \<open>BeaconDB.Block\<close> and \<open>BeaconDB.HasBlock\<close>.
  \<open>block(root) \<rightarrow> block | absent\<close>: a cache hit, else the database; absent is not an
  error.
\<close>

definition Block :: "BeaconDB \<Rightarrow> bytes \<Rightarrow> error + BeaconBlock option" where
  "Block d root =
     Inr (case blockCache d root of Some b \<Rightarrow> Some b | None \<Rightarrow> blocks d root)"

definition HasBlock :: "BeaconDB \<Rightarrow> bytes \<Rightarrow> bool" where
  "HasBlock d root = (case Block d root of Inr (Some b) \<Rightarrow> True | _ \<Rightarrow> False)"

text \<open>
  Modelled from the spec: \<open>BeaconDB.SaveBlock\<close>. An upsert by signing root, together
  with the update of \<open>highest_block_slot\<close> and the refresh of the cache entry; a root on
  the evil list fails with \<open>Blacklisted\<close>.
\<close>

definition SaveBlock :: "env \<Rightarrow> BeaconDB \<Rightarrow> BeaconBlock \<Rightarrow> BeaconDB \<times> error option" where
  "SaveBlock env d block =
     (case SigningRoot env block of
        Inl e \<Rightarrow> (d, Some e)
      | Inr root \<Rightarrow>
          if root \<in> evil d then (d, Some Blacklisted)
          else (d\<lparr>blocks := (blocks d)(root \<mapsto> block),
                   blockCache := (blockCache d)(root \<mapsto> block),
                   highestBlockSlot := max (highestBlockSlot d) (Slot block)\<rparr>, None))"

text \<open>
  Modelled from the spec: \<open>BeaconDB.DeleteBlock\<close> (evicts the block from cache and
  database) and \<open>BeaconDB.MarkEvilBlockHash\<close> (remembers the root on the deny-list).
\<close>

definition DeleteBlock :: "env \<Rightarrow> BeaconDB \<Rightarrow> BeaconBlock \<Rightarrow> BeaconDB \<times> error option" where
  "DeleteBlock env d block =
     (case SigningRoot env block of
        Inl e \<Rightarrow> (d, Some e)
      | Inr root \<Rightarrow>
          (d\<lparr>blocks := (blocks d)(root := None),
              blockCache := (blockCache d)(root := None)\<rparr>, None))"

definition MarkEvilBlockHash :: "BeaconDB \<Rightarrow> bytes \<Rightarrow> BeaconDB" where
  "MarkEvilBlockHash d root = d\<lparr>evil := insert root (evil d)\<rparr>"

text \<open>Modelled from the spec: \<open>BeaconDB.ClearBlockCache\<close> drops the in-memory blocks;
  the database is unaffected.\<close>

definition ClearBlockCache :: "BeaconDB \<Rightarrow> BeaconDB" where
  "ClearBlockCache d = d\<lparr>blockCache := Map.empty\<rparr>"

text \<open>
  Modelled from the spec: \<open>BeaconDB.SaveState\<close> (\<open>state/{root}\<close>: a committed state is
  identified by its tree-hash root), \<open>BeaconDB.SaveCheckpointState\<close>,
  \<open>BeaconDB.HasCheckpoint\<close> and \<open>BeaconDB.CheckpointState\<close>
  (\<open>checkpoint_state/{epoch,root}\<close>; a missing key is not an error).
\<close>

definition SaveState :: "env \<Rightarrow> BeaconDB \<Rightarrow> BeaconState \<Rightarrow> BeaconDB \<times> error option" where
  "SaveState env d st =
     (case HashTreeRoot_state env st of
        Inl e \<Rightarrow> (d, Some e)
      | Inr root \<Rightarrow> (d\<lparr>states := (states d)(root \<mapsto> st)\<rparr>, None))"

definition SaveCheckpointState ::
  "BeaconDB \<Rightarrow> Checkpoint \<Rightarrow> BeaconState \<Rightarrow> BeaconDB \<times> error option" where
  "SaveCheckpointState d cp st = (d\<lparr>checkpointStates := (checkpointStates d)(cp \<mapsto> st)\<rparr>, None)"

definition HasCheckpoint :: "BeaconDB \<Rightarrow> Checkpoint \<Rightarrow> error + bool" where
  "HasCheckpoint d cp = Inr (checkpointStates d cp \<noteq> None)"

definition CheckpointState :: "BeaconDB \<Rightarrow> Checkpoint \<Rightarrow> error + BeaconState option" where
  "CheckpointState d cp = Inr (checkpointStates d cp)"

text \<open>
  Modelled from the spec: \<open>BeaconDB.HasLatestMessage\<close>, \<open>BeaconDB.LatestMessage\<close> and
  \<open>BeaconDB.SaveLatestMessage\<close> (\<open>latest_msg/{validator_idx}\<close>): latest messages are
  overwritten in place, and a missing key is not an error (the lookup gives \<open>nil\<close>).
  Over any sequence of saves the stored epoch of a validator is non-decreasing: a
  message of an epoch below the stored one is not recorded (after \<open>{5, R1}\<close>, saving
  \<open>{3, R2}\<close> leaves \<open>{5, R1}\<close>, and saving \<open>{7, R3}\<close> stores it).
\<close>

definition HasLatestMessage :: "BeaconDB \<Rightarrow> uint64 \<Rightarrow> bool" where
  "HasLatestMessage d i = (latestMessages d i \<noteq> None)"

definition LatestMessage :: "BeaconDB \<Rightarrow> uint64 \<Rightarrow> error + LatestMessage option" where
  "LatestMessage d i = Inr (latestMessages d i)"

definition SaveLatestMessage ::
  "BeaconDB \<Rightarrow> uint64 \<Rightarrow> LatestMessage \<Rightarrow> BeaconDB \<times> error option" where
  "SaveLatestMessage d i m =
     (case latestMessages d i of
        None \<Rightarrow> (d\<lparr>latestMessages := (latestMessages d)(i \<mapsto> m)\<rparr>, None)
      | Some old \<Rightarrow>
          if msg_Epoch m < msg_Epoch old then (d, None)
          else (d\<lparr>latestMessages := (latestMessages d)(i \<mapsto> m)\<rparr>, None))"

section \<open>The fork-choice store\<close>

text \<open>
  \<open>type Store struct\<close>. The two checkpoints are pointers, \<open>nil\<close> (\<open>None\<close>) in the store
  that \<open>NewForkChoiceService\<close> returns; the context and its cancel function carry no
  data.
\<close>

record Store =
  time :: uint64
  justifiedCheckpt :: "Checkpoint option"
  finalizedCheckpt :: "Checkpoint option"
  db :: BeaconDB

definition NewForkChoiceService :: "BeaconDB \<Rightarrow> Store" where
  "NewForkChoiceService d =
     \<lparr>time = 0, justifiedCheckpt = None, finalizedCheckpt = None, db = d\<rparr>"

text \<open>\<open>func (s *Store) GensisStore(state *pb.BeaconState) error\<close>: the store after the
  call and the error returned (\<open>None\<close> is \<open>nil\<close>).\<close>

definition GensisStore :: "env \<Rightarrow> Store \<Rightarrow> BeaconState \<Rightarrow> Store \<times> error option" where
  "GensisStore env s st =
     (case HashTreeRoot_state env st of
        Inl e \<Rightarrow> (s, Some (wrap ''could not tree hash genesis state'' e))
      | Inr stateRoot \<Rightarrow>
          let genesisBlk = zero_BeaconBlock\<lparr>StateRoot := stateRoot\<rparr> in
          (case HashTreeRoot_block env genesisBlk of
             Inl e \<Rightarrow> (s, Some (wrap ''could not tree hash genesis block'' e))
           | Inr blkRoot \<Rightarrow>
               let s1 = s\<lparr>time := GenesisTime st,
                           justifiedCheckpt := Some \<lparr>Epoch = 0, Root = blkRoot\<rparr>,
                           finalizedCheckpt := Some \<lparr>Epoch = 0, Root = blkRoot\<rparr>\<rparr> in
               (case SaveBlock env (db s1) genesisBlk of
                  (d1, Some e) \<Rightarrow> (s1\<lparr>db := d1\<rparr>, Some (wrap ''could not save genesis block'' e))
                | (d1, None) \<Rightarrow>
                    (case SaveState env d1 st of
                       (d2, Some e) \<Rightarrow>
                         (s1\<lparr>db := d2\<rparr>, Some (wrap ''could not save genesis state'' e))
                     | (d2, None) \<Rightarrow>
                         (case SaveCheckpointState d2 \<lparr>Epoch = 0, Root = blkRoot\<rparr> st of
                            (d3, Some e) \<Rightarrow>
                              (s1\<lparr>db := d3\<rparr>, Some (wrap ''could not save justified checkpt'' e))
                          | (d3, None) \<Rightarrow>
                              (case SaveCheckpointState d3 \<lparr>Epoch = 0, Root = blkRoot\<rparr> st of
                                 (d4, Some e) \<Rightarrow>
                                   (s1\<lparr>db := d4\<rparr>,
                                    Some (wrap ''could not save finalized checkpt'' e))
                               | (d4, None) \<Rightarrow> (s1\<lparr>db := d4\<rparr>, None)))))))"

text \<open>
  \<open>func (s *Store) Ancestor(root []byte, slot uint64) ([]byte, error)\<close>. The recursion
  follows \<open>ParentRoot\<close> and need not end, so the result is an option: \<open>None\<close> is a call
  that never returns. \<open>b.Slot\<close> on the \<open>nil\<close> block of a missing root panics.
\<close>

partial_function (option) Ancestor :: "Store \<Rightarrow> bytes \<Rightarrow> uint64 \<Rightarrow> (error + bytes) option" where
  "Ancestor s root slot =
     (case Block (db s) (ToBytes32 root) of
        Inl e \<Rightarrow> Some (Inl (wrap ''could not get ancestor block'' e))
      | Inr None \<Rightarrow> Some (Inl (Panic ''nil pointer dereference''))
      | Inr (Some b) \<Rightarrow>
          if Slot b < slot then Some (Inl SlotUnderflow)
          else if Slot b = slot then Some (Inr root)
          else Ancestor s (ParentRoot b) slot)"

text \<open>\<open>func (s *Store) OnTick(t uint64)\<close>.\<close>

definition OnTick :: "Store \<Rightarrow> uint64 \<Rightarrow> Store" where
  "OnTick s t = s\<lparr>time := t\<rparr>"

text \<open>A sequence of \<open>OnTick\<close> calls, and the values \<open>s.time\<close> takes after each of them.\<close>

fun OnTicks :: "Store \<Rightarrow> uint64 list \<Rightarrow> Store" where
  "OnTicks s [] = s"
| "OnTicks s (t # ts) = OnTicks (OnTick s t) ts"

fun OnTicks_trace :: "Store \<Rightarrow> uint64 list \<Rightarrow> uint64 list" where
  "OnTicks_trace s [] = []"
| "OnTicks_trace s (t # ts) = time (OnTick s t) # OnTicks_trace (OnTick s t) ts"

text \<open>
  \<open>func (s *Store) LatestAttestingBalance(root []byte) (uint64, error)\<close>. First the
  loop over the active indices, with the running sum \<open>balances\<close>; \<open>wantedBlk\<close> is the
  block read for \<open>root\<close> (\<open>None\<close> when the store has none: \<open>wantedBlk.Slot\<close> then
  panics), and \<open>Validators[i]\<close> panics out of range.
\<close>

fun LatestAttestingBalance_loop ::
  "Store \<Rightarrow> bytes \<Rightarrow> BeaconState \<Rightarrow> BeaconBlock option \<Rightarrow> uint64 list \<Rightarrow> uint64 \<Rightarrow>
     (error + uint64) option" where
  "LatestAttestingBalance_loop s root st wantedBlk [] balances = Some (Inr balances)"
| "LatestAttestingBalance_loop s root st wantedBlk (i # is) balances =
     (if HasLatestMessage (db s) i then
        (case LatestMessage (db s) i of
           Inl e \<Rightarrow> Some (Inl (wrap ''could not get validator %d latest msg'' e))
         | Inr None \<Rightarrow> Some (Inl (Panic ''nil pointer dereference''))
         | Inr (Some msg) \<Rightarrow>
             (case wantedBlk of
                None \<Rightarrow> Some (Inl (Panic ''nil pointer dereference''))
              | Some wb \<Rightarrow>
                  (case Ancestor s (msg_Root msg) (Slot wb) of
                     None \<Rightarrow> None
                   | Some (Inl e) \<Rightarrow>
                       Some (Inl (wrap ''could not get ancestor root for slot %d'' e))
                   | Some (Inr wantedRoot) \<Rightarrow>
                       if wantedRoot = root then
                         (if unat i < length (Validators st) then
                            LatestAttestingBalance_loop s root st wantedBlk is
                              (balances + EffectiveBalance (Validators st ! unat i))
                          else Some (Inl (Panic ''index out of range'')))
                       else LatestAttestingBalance_loop s root st wantedBlk is balances)))
      else LatestAttestingBalance_loop s root st wantedBlk is balances)"

definition LatestAttestingBalance :: "env \<Rightarrow> Store \<Rightarrow> bytes \<Rightarrow> (error + uint64) option" where
  "LatestAttestingBalance env s root =
     (case justifiedCheckpt s of
        None \<Rightarrow> Some (Inl (Panic ''nil pointer dereference''))
      | Some jc \<Rightarrow>
          (case CheckpointState (db s) jc of
             Inl e \<Rightarrow> Some (Inl (wrap ''could not get checkpoint state'' e))
           | Inr None \<Rightarrow> Some (Inl (Panic ''nil pointer dereference''))
           | Inr (Some lastJustifiedState) \<Rightarrow>
               let lastJustifiedEpoch = CurrentEpoch env lastJustifiedState in
               (case ActiveValidatorIndices env lastJustifiedState lastJustifiedEpoch of
                  Inl e \<Rightarrow>
                    Some (Inl (wrap ''could not get active indices for last checkpoint state'' e))
                | Inr activeIndices \<Rightarrow>
                    (case Block (db s) (ToBytes32 root) of
                       Inl e \<Rightarrow> Some (Inl (wrap ''could not get slot for an ancestor block'' e))
                     | Inr wantedBlk \<Rightarrow>
                         LatestAttestingBalance_loop s root lastJustifiedState wantedBlk
                           activeIndices 0))))"

text \<open>
  \<open>func (s *Store) Head() ([]byte, error)\<close>. \<open>Head_children\<close> is the loop over
  \<open>roots\<close> that appends to \<open>children\<close>; \<open>Head_heaviest\<close> is the loop over
  \<open>children[1:]\<close>, which assigns the loop-local \<open>head\<close> and leaves \<open>highest\<close> as it is;
  \<open>Head_loop\<close> is the outer \<open>for { ... }\<close>, entered with the function's own \<open>head\<close> and
  \<open>justifiedSlot\<close>. Inside the loop \<open>head := children[0]\<close> declares a new variable, so
  the next round starts from the same outer \<open>head\<close>. \<open>children\<close> and \<open>roots\<close> are the
  stubs \<open>[][]byte{{}}\<close>: one empty root each.
\<close>

fun Head_children ::
  "Store \<Rightarrow> bytes \<Rightarrow> uint64 \<Rightarrow> bytes list \<Rightarrow> bytes list \<Rightarrow> error + bytes list" where
  "Head_children s head justifiedSlot [] children = Inr children"
| "Head_children s head justifiedSlot (r # roots) children =
     (case Block (db s) (ToBytes32 r) of
        Inl e \<Rightarrow> Inl (wrap ''could not get block'' e)
      | Inr None \<Rightarrow> Inl (Panic ''nil pointer dereference'')
      | Inr (Some b) \<Rightarrow>
          if ParentRoot b = head \<and> Slot b > justifiedSlot
          then Head_children s head justifiedSlot roots (children @ [r])
          else Head_children s head justifiedSlot roots children)"

fun Head_heaviest ::
  "env \<Rightarrow> Store \<Rightarrow> bytes list \<Rightarrow> bytes \<Rightarrow> uint64 \<Rightarrow> (error + bytes) option" where
  "Head_heaviest env s [] head highest = Some (Inr head)"
| "Head_heaviest env s (child # rest) head highest =
     (case LatestAttestingBalance env s child of
        None \<Rightarrow> None
      | Some (Inl e) \<Rightarrow> Some (Inl (wrap ''could not get latest balance'' e))
      | Some (Inr balance) \<Rightarrow>
          Head_heaviest env s rest (if balance > highest then child else head) highest)"

partial_function (option) Head_loop ::
  "env \<Rightarrow> Store \<Rightarrow> bytes \<Rightarrow> uint64 \<Rightarrow> (error + bytes) option" where
  "Head_loop env s head justifiedSlot =
     (case Head_children s head justifiedSlot [[]] [[]] of
        Inl e \<Rightarrow> Some (Inl e)
      | Inr children \<Rightarrow>
          if length children = 0 then Some (Inr head)
          else
            (case LatestAttestingBalance env s (hd children) of
               None \<Rightarrow> None
             | Some (Inl e) \<Rightarrow> Some (Inl (wrap ''could not get latest balance'' e))
             | Some (Inr highest) \<Rightarrow>
                 (case Head_heaviest env s (tl children) (hd children) highest of
                    None \<Rightarrow> None
                  | Some (Inl e) \<Rightarrow> Some (Inl e)
                  | Some (Inr head') \<Rightarrow> Head_loop env s head justifiedSlot)))"

definition Head :: "env \<Rightarrow> Store \<Rightarrow> (error + bytes) option" where
  "Head env s =
     (case justifiedCheckpt s of
        None \<Rightarrow> Some (Inl (Panic ''nil pointer dereference''))
      | Some jc \<Rightarrow> Head_loop env s (Root jc) (StartSlot env (Epoch jc)))"

text \<open>
  \<open>func (s *Store) OnBlock(b *pb.BeaconBlock) error\<close>: the store after the call and the
  error returned; \<open>None\<close> for the whole result when the call to \<open>Ancestor\<close> never
  returns. The error of \<open>Ancestor\<close> is dropped by the source: \<open>bFinalizedRoot\<close> is then
  the \<open>nil\<close> slice; a panic of \<open>Ancestor\<close> ends the call. \<open>OnBlock_finalized\<close> is the
  function from the comparison of \<open>bFinalizedRoot\<close> with the finalized root to its end.
  Adopting a checkpoint assigns the \<open>Epoch\<close> field of the store's checkpoint.
\<close>

definition OnBlock_finalized ::
  "env \<Rightarrow> Store \<Rightarrow> BeaconBlock \<Rightarrow> BeaconState \<Rightarrow> Checkpoint \<Rightarrow> bytes \<Rightarrow>
     Store \<times> error option" where
  "OnBlock_finalized env s1 b preState fc bFinalizedRoot =
     (if bFinalizedRoot \<noteq> Root fc then (s1, Some NotDescendantOfFinalized)
      else
        let finalizedSlot = StartSlot env (Epoch fc) in
        if finalizedSlot \<ge> Slot b
        then (s1, Some (Err ''block is equal or earlier than finalized block''))
        else
          (case ExecuteStateTransition env preState (Some b) DefaultConfig of
             Inl e \<Rightarrow> (s1, Some (wrap ''could not execute state transition'' e))
           | Inr postState \<Rightarrow>
               (case SaveState env (db s1) postState of
                  (d2, Some e) \<Rightarrow> (s1\<lparr>db := d2\<rparr>, Some (wrap ''could not save state'' e))
                | (d2, None) \<Rightarrow>
                    let s2 = s1\<lparr>db := d2\<rparr> in
                    (case justifiedCheckpt s2 of
                       None \<Rightarrow> (s2, Some (Panic ''nil pointer dereference''))
                     | Some jc \<Rightarrow>
                         let s3 = (if Epoch (CurrentJustifiedCheckpoint postState) > Epoch jc
                                   then s2\<lparr>justifiedCheckpt := Some (jc\<lparr>Epoch :=
                                          Epoch (CurrentJustifiedCheckpoint postState)\<rparr>)\<rparr>
                                   else s2);
                             s4 = (if Epoch (FinalizedCheckpoint postState) > Epoch fc
                                   then s3\<lparr>finalizedCheckpt := Some (fc\<lparr>Epoch :=
                                          Epoch (FinalizedCheckpoint postState)\<rparr>)\<rparr>
                                   else s3)
                         in (s4, None)))))"

definition OnBlock :: "env \<Rightarrow> Store \<Rightarrow> BeaconBlock \<Rightarrow> (Store \<times> error option) option" where
  "OnBlock env s b =
     (case HistoricalStateFromSlot env (db s) (Slot b) (ToBytes32 (ParentRoot b)) of
        Inl e \<Rightarrow> Some (s, Some (wrap ''could not get pre state for slot %d'' e))
      | Inr None \<Rightarrow> Some (s, Some (Err ''pre state of slot %d does not exist''))
      | Inr (Some preState) \<Rightarrow>
          let slotTime = GenesisTime preState + Slot b * SecondsPerSlot env in
          if slotTime > time s then Some (s, Some FromFuture)
          else
            (case SaveBlock env (db s) b of
               (d1, Some e) \<Rightarrow>
                 Some (s\<lparr>db := d1\<rparr>, Some (wrap ''could not save block from slot %d'' e))
             | (d1, None) \<Rightarrow>
                 let s1 = s\<lparr>db := d1\<rparr> in
                 (case finalizedCheckpt s1 of
                    None \<Rightarrow> Some (s1, Some (Panic ''nil pointer dereference''))
                  | Some fc \<Rightarrow>
                      (case Block (db s1) (ToBytes32 (Root fc)) of
                         Inl e \<Rightarrow> Some (s1, Some (wrap ''could not get finalized block'' e))
                       | Inr finalizedBlk \<Rightarrow>
                           (case SigningRoot env b of
                              Inl e \<Rightarrow>
                                Some (s1, Some (wrap ''could not get sign root of block %d'' e))
                            | Inr root \<Rightarrow>
                                (case finalizedBlk of
                                   None \<Rightarrow> Some (s1, Some (Panic ''nil pointer dereference''))
                                 | Some fb \<Rightarrow>
                                     (case Ancestor s1 root (Slot fb) of
                                        None \<Rightarrow> None
                                      | Some (Inl e) \<Rightarrow>
                                          if isPanic e then Some (s1, Some e)
                                          else Some (OnBlock_finalized env s1 b preState fc [])
                                      | Some (Inr bFinalizedRoot) \<Rightarrow>
                                          Some (OnBlock_finalized env s1 b preState fc
                                                  bFinalizedRoot))))))))"

text \<open>
  \<open>func (s *Store) OnAttestation(a *pb.Attestation) error\<close>. First the loop that
  updates every validator's latest message (the \<open>for _, i := range append(...)\<close> at the
  end of the function) over the list of indices it ranges over. \<open>msg.Epoch\<close> is read
  only when \<open>HasLatestMessage(i)\<close> is false (\<open>||\<close> short-circuits), and panics on the
  \<open>nil\<close> message of a missing key.
\<close>

fun OnAttestation_update ::
  "BeaconDB \<Rightarrow> Checkpoint \<Rightarrow> bytes \<Rightarrow> uint64 list \<Rightarrow> BeaconDB \<times> error option" where
  "OnAttestation_update d tgt blockRoot [] = (d, None)"
| "OnAttestation_update d tgt blockRoot (i # is) =
     (case LatestMessage d i of
        Inl e \<Rightarrow> (d, Some (wrap ''could not get latest msg for validator %d'' e))
      | Inr msg \<Rightarrow>
          (case (if HasLatestMessage d i then Inr True
                 else (case msg of
                         None \<Rightarrow> Inl (Panic ''nil pointer dereference'')
                       | Some m \<Rightarrow> Inr (Epoch tgt > msg_Epoch m))) of
             Inl e \<Rightarrow> (d, Some e)
           | Inr False \<Rightarrow> OnAttestation_update d tgt blockRoot is
           | Inr True \<Rightarrow>
               (case SaveLatestMessage d i \<lparr>msg_Epoch = Epoch tgt, msg_Root = blockRoot\<rparr> of
                  (d', Some e) \<Rightarrow>
                    (d', Some (wrap ''could not save latest msg for validator %d'' e))
                | (d', None) \<Rightarrow> OnAttestation_update d' tgt blockRoot is)))"

text \<open>The part of \<open>OnAttestation\<close> that stores the target checkpoint state if not yet seen:
  the store and the state \<open>baseState\<close> after it, or the error it returns.\<close>

definition OnAttestation_checkpoint ::
  "env \<Rightarrow> Store \<Rightarrow> Checkpoint \<Rightarrow> uint64 \<Rightarrow> BeaconState \<Rightarrow> bool \<Rightarrow>
     (Store \<times> error) + (Store \<times> BeaconState)" where
  "OnAttestation_checkpoint env s tgt tgtSlot baseState exists =
     (if \<not> exists then
        (case ProcessSlots env baseState tgtSlot of
           Inl e \<Rightarrow> Inl (s, Err ''could not process slots up to %d'')
         | Inr baseState' \<Rightarrow>
             (case SaveCheckpointState (db s) tgt baseState' of
                (d, Some e) \<Rightarrow> Inl (s\<lparr>db := d\<rparr>, wrap ''could not save check point state'' e)
              | (d, None) \<Rightarrow> Inr (s\<lparr>db := d\<rparr>, baseState')))
      else Inr (s, baseState))"

definition OnAttestation :: "env \<Rightarrow> Store \<Rightarrow> Attestation \<Rightarrow> Store \<times> error option" where
  "OnAttestation env s a =
     (let tgt = Target (Data a) in
      if \<not> HasBlock (db s) (ToBytes32 (Root tgt)) then (s, Some UnknownTarget)
      else
        let tgtSlot = StartSlot env (Epoch tgt) in
        (case HistoricalStateFromSlot env (db s) tgtSlot (ToBytes32 (Root tgt)) of
           Inl e \<Rightarrow> (s, Some (wrap ''could not get pre state for slot %d'' e))
         | Inr None \<Rightarrow> (s, Some (Err ''pre state of slot %d does not exist''))
         | Inr (Some baseState) \<Rightarrow>
             let slotTime = GenesisTime baseState + tgtSlot * SecondsPerSlot env in
             if slotTime > time s then (s, Some FromFutureEpoch)
             else
               (case HasCheckpoint (db s) tgt of
                  Inl e \<Rightarrow> (s, Some (wrap ''could not get check point state'' e))
                | Inr exists \<Rightarrow>
                    (case OnAttestation_checkpoint env s tgt tgtSlot baseState exists of
                       Inl (s1, e) \<Rightarrow> (s1, Some e)
                     | Inr (s1, baseState1) \<Rightarrow>
                         (case AttestationDataSlot env baseState1 (Data a) of
                            Inl e \<Rightarrow> (s1, Some (wrap ''could not get attestation slot'' e))
                          | Inr aSlot \<Rightarrow>
                              let slotTime1 = GenesisTime baseState1
                                                + (aSlot + 1) * SecondsPerSlot env in
                              if slotTime1 > time s1 then (s1, Some NotYetUsable)
                              else
                                let indexedAtt = zero_IndexedAttestation in
                                (case VerifyIndexedAttestation env indexedAtt True of
                                   Some e \<Rightarrow>
                                     (s1, Some (Err ''could not verify indexed attestation''))
                                 | None \<Rightarrow>
                                     (case OnAttestation_update (db s1) tgt
                                             (BeaconBlockRoot (Data a))
                                             (CustodyBit_0Indices indexedAtt
                                                @ CustodyBit_1Indices indexedAtt) of
                                        (d, r) \<Rightarrow> (s1\<lparr>db := d\<rparr>, r))))))))"

section \<open>The chain service and the block pipeline\<close>

text \<open>
  Modelled from the spec: \<open>BeaconDB.SaveAttestationTarget\<close>
  (\<open>attestation_target/{root}\<close>), \<open>BeaconDB.SaveHistoricalState\<close> (the historical state,
  keyed by block signing root), \<open>BeaconDB.SaveValidatorIndex\<close> and
  \<open>BeaconDB.DeleteValidatorIndex\<close> (\<open>validator_pubkey_index/{pubkey}\<close>), and
  \<open>BeaconDB.RemovePendingDeposit\<close> (removes the deposit from the pending-deposit queue).
\<close>

definition SaveAttestationTarget ::
  "BeaconDB \<Rightarrow> AttestationTarget \<Rightarrow> BeaconDB \<times> error option" where
  "SaveAttestationTarget d t =
     (d\<lparr>attestationTargets := (attestationTargets d)(ToBytes32 (tgt_BeaconBlockRoot t) \<mapsto> t)\<rparr>,
      None)"

definition SaveHistoricalState ::
  "BeaconDB \<Rightarrow> BeaconState \<Rightarrow> bytes \<Rightarrow> BeaconDB \<times> error option" where
  "SaveHistoricalState d st blockRoot =
     (d\<lparr>historicalStates := (historicalStates d)(blockRoot \<mapsto> st)\<rparr>, None)"

definition SaveValidatorIndex :: "BeaconDB \<Rightarrow> bytes \<Rightarrow> int \<Rightarrow> BeaconDB \<times> error option" where
  "SaveValidatorIndex d pubKey idx =
     (d\<lparr>validatorIndex := (validatorIndex d)(pubKey \<mapsto> idx)\<rparr>, None)"

definition DeleteValidatorIndex :: "BeaconDB \<Rightarrow> bytes \<Rightarrow> BeaconDB \<times> error option" where
  "DeleteValidatorIndex d pubKey =
     (d\<lparr>validatorIndex := (validatorIndex d)(pubKey := None)\<rparr>, None)"

definition RemovePendingDeposit :: "BeaconDB \<Rightarrow> Deposit \<Rightarrow> BeaconDB" where
  "RemovePendingDeposit d dep = d\<lparr>pendingDeposits := remove1 dep (pendingDeposits d)\<rparr>"

text \<open>
  \<open>type ChainService struct\<close>, with what the pipeline changes outside it:
  \<open>p2pBroadcasts\<close> are the announcements handed to \<open>p2p.Broadcast\<close>, \<open>opsPoolFeed\<close> the
  blocks sent on the operation pool's feed, and \<open>activatedValidators\<close> and
  \<open>exitedValidators\<close> the module-level maps of package \<open>validators\<close> (a missing epoch
  holds the \<open>nil\<close> list). Locks, feeds without payload and the context carry no data;
  the helper caches are pure memoisation and have no state here.
\<close>

record ChainService =
  beaconDB :: BeaconDB
  genesisTime :: uint64
  finalizedEpoch :: uint64
  canonicalBlocks :: "uint64 \<rightharpoonup> bytes"
  maxRoutines :: int
  p2pBroadcasts :: "BeaconBlockAnnounce list"
  opsPoolFeed :: "BeaconBlock list"
  activatedValidators :: "uint64 \<Rightarrow> uint64 list"
  exitedValidators :: "uint64 \<Rightarrow> uint64 list"

text \<open>\<open>func (c *ChainService) UpdateCanonicalRoots(newHead *ethpb.BeaconBlock,
  newHeadRoot [32]byte)\<close> and \<open>func (c *ChainService) IsCanonical(slot uint64, hash []byte)
  bool\<close>.\<close>

definition UpdateCanonicalRoots :: "ChainService \<Rightarrow> BeaconBlock \<Rightarrow> bytes \<Rightarrow> ChainService" where
  "UpdateCanonicalRoots c newHead newHeadRoot =
     c\<lparr>canonicalBlocks := (canonicalBlocks c)(Slot newHead \<mapsto> newHeadRoot)\<rparr>"

definition IsCanonical :: "ChainService \<Rightarrow> uint64 \<Rightarrow> bytes \<Rightarrow> bool" where
  "IsCanonical c slot hash =
     (case canonicalBlocks c slot of
        Some canonicalHash \<Rightarrow> canonicalHash = hash
      | None \<Rightarrow> False)"

text \<open>\<open>func (c *ChainService) VerifyBlockValidity(ctx, block, beaconState) error\<close>. The
  deposit watcher is configured (\<open>c.web3Service\<close> is not \<open>nil\<close>); its block fetcher and
  the wall clock are inside the parameter \<open>IsValidBlock\<close>.\<close>

definition VerifyBlockValidity ::
  "env \<Rightarrow> ChainService \<Rightarrow> BeaconBlock \<Rightarrow> BeaconState option \<Rightarrow> error option" where
  "VerifyBlockValidity env c block beaconState =
     (if Slot block = 0 then Some GenesisReplay
      else
        (case IsValidBlock env beaconState block (HasBlock (beaconDB c)) (genesisTime c) of
           Some e \<Rightarrow> Some (wrap ''block does not fulfill pre-processing conditions'' e)
         | None \<Rightarrow> None))"

text \<open>\<open>func (c *ChainService) SaveAndBroadcastBlock(ctx, block) error\<close>.\<close>

definition SaveAndBroadcastBlock ::
  "env \<Rightarrow> ChainService \<Rightarrow> BeaconBlock \<Rightarrow> ChainService \<times> error option" where
  "SaveAndBroadcastBlock env c block =
     (case SigningRoot env block of
        Inl e \<Rightarrow> (c, Some (wrap ''could not tree hash incoming block'' e))
      | Inr blockRoot \<Rightarrow>
          (case SaveBlock env (beaconDB c) block of
             (d1, Some e) \<Rightarrow> (c\<lparr>beaconDB := d1\<rparr>, Some (wrap ''failed to save block'' e))
           | (d1, None) \<Rightarrow>
               (case SaveAttestationTarget d1
                       \<lparr>tgt_Slot = Slot block, tgt_BeaconBlockRoot = blockRoot,
                        tgt_ParentRoot = ParentRoot block\<rparr> of
                  (d2, Some e) \<Rightarrow>
                    (c\<lparr>beaconDB := d2\<rparr>, Some (wrap ''failed to save attestation target'' e))
                | (d2, None) \<Rightarrow>
                    (c\<lparr>beaconDB := d2,
                        p2pBroadcasts := p2pBroadcasts c
                          @ [\<lparr>Hash = blockRoot, SlotNumber = Slot block\<rparr>]\<rparr>, None))))"

text \<open>\<open>func (c *ChainService) CleanupBlockOperations(ctx, block) error\<close>;
  \<open>block.Body.Attestations\<close> panics on a \<open>nil\<close> body.\<close>

definition CleanupBlockOperations ::
  "env \<Rightarrow> ChainService \<Rightarrow> BeaconBlock \<Rightarrow> ChainService \<times> error option" where
  "CleanupBlockOperations env c block =
     (let c1 = c\<lparr>opsPoolFeed := opsPoolFeed c @ [block]\<rparr> in
      case Body block of
        None \<Rightarrow> (c1, Some (Panic ''nil pointer dereference''))
      | Some body \<Rightarrow>
          (case BatchUpdateLatestAttestation env (Attestations body) of
             Some e \<Rightarrow> (c1, Some (wrap ''failed to update latest attestation for store'' e))
           | None \<Rightarrow>
               (c1\<lparr>beaconDB := foldl RemovePendingDeposit (beaconDB c1) (Deposits body)\<rparr>,
                None)))"

text \<open>
  Modelled from the spec: \<open>validators.ActivatedValFromEpoch\<close>,
  \<open>validators.InsertActivatedIndices\<close>, \<open>validators.DeleteActivatedVal\<close>,
  \<open>validators.ExitedValFromEpoch\<close> and \<open>validators.DeleteExitedVal\<close> (package
  \<open>core/validators\<close> is not under \<open>src/\<close>): the module-level validator-activation and
  exit maps, read at an epoch, extended at an epoch, and emptied at an epoch.

  \<open>func (c *ChainService) saveValidatorIdx(state *pb.BeaconState) error\<close>. The loop
  over the activated indices carries \<open>idxNotInState\<close>; \<open>int(idx)\<close> is the signed
  reading of the index, so an index of \<open>2^63\<close> or more passes the length check and
  \<open>state.Validators[idx]\<close> panics.
\<close>

fun saveValidatorIdx_loop ::
  "BeaconDB \<Rightarrow> BeaconState \<Rightarrow> uint64 list \<Rightarrow> uint64 list \<Rightarrow>
     BeaconDB \<times> (error + uint64 list)" where
  "saveValidatorIdx_loop d st [] idxNotInState = (d, Inr idxNotInState)"
| "saveValidatorIdx_loop d st (idx # rest) idxNotInState =
     (if sint idx \<ge> int (length (Validators st))
      then saveValidatorIdx_loop d st rest (idxNotInState @ [idx])
      else if unat idx \<ge> length (Validators st)
      then (d, Inl (Panic ''index out of range''))
      else
        (case SaveValidatorIndex d (PublicKey (Validators st ! unat idx)) (sint idx) of
           (d', Some e) \<Rightarrow> (d', Inl (wrap ''could not save validator index'' e))
         | (d', None) \<Rightarrow> saveValidatorIdx_loop d' st rest idxNotInState))"

definition saveValidatorIdx ::
  "env \<Rightarrow> ChainService \<Rightarrow> BeaconState \<Rightarrow> ChainService \<times> error option" where
  "saveValidatorIdx env c st =
     (let nextEpoch = CurrentEpoch env st + 1 in
      case saveValidatorIdx_loop (beaconDB c) st (activatedValidators c nextEpoch) [] of
        (d, Inl e) \<Rightarrow> (c\<lparr>beaconDB := d\<rparr>, Some e)
      | (d, Inr idxNotInState) \<Rightarrow>
          let a1 = (activatedValidators c)
                     (nextEpoch + 1 := activatedValidators c (nextEpoch + 1) @ idxNotInState);
              a2 = a1(CurrentEpoch env st := [])
          in (c\<lparr>beaconDB := d, activatedValidators := a2\<rparr>, None))"

text \<open>\<open>func (c *ChainService) deleteValidatorIdx(state *pb.BeaconState) error\<close>.\<close>

fun deleteValidatorIdx_loop ::
  "BeaconDB \<Rightarrow> BeaconState \<Rightarrow> uint64 list \<Rightarrow> BeaconDB \<times> error option" where
  "deleteValidatorIdx_loop d st [] = (d, None)"
| "deleteValidatorIdx_loop d st (idx # rest) =
     (if unat idx \<ge> length (Validators st) then (d, Some (Panic ''index out of range''))
      else
        (case DeleteValidatorIndex d (PublicKey (Validators st ! unat idx)) of
           (d', Some e) \<Rightarrow> (d', Some (wrap ''could not delete validator index'' e))
         | (d', None) \<Rightarrow> deleteValidatorIdx_loop d' st rest))"

definition deleteValidatorIdx ::
  "env \<Rightarrow> ChainService \<Rightarrow> BeaconState \<Rightarrow> ChainService \<times> error option" where
  "deleteValidatorIdx env c st =
     (case deleteValidatorIdx_loop (beaconDB c) st
             (exitedValidators c (CurrentEpoch env st + 1)) of
        (d, Some e) \<Rightarrow> (c\<lparr>beaconDB := d\<rparr>, Some e)
      | (d, None) \<Rightarrow>
          (c\<lparr>beaconDB := d,
              exitedValidators := (exitedValidators c)(CurrentEpoch env st := [])\<rparr>, None))"

text \<open>
  \<open>func (c *ChainService) AdvanceState(ctx, beaconState, block) (*pb.BeaconState,
  error)\<close>: the service after the call, the state returned (\<open>None\<close> is \<open>nil\<close>) and the
  error. \<open>AdvanceState_epoch\<close> is the housekeeping under
  \<open>if helpers.IsEpochStart(newState.Slot)\<close> with the final \<open>return newState, nil\<close>.

  Modelled from the spec: \<open>updateFFGCheckPts\<close> (\<open>fork_choice.go\<close> of package
  \<open>blockchain\<close> is not under \<open>src/\<close>) updates the FFG checkpoint records; which blocks
  and states it records is the parameter \<open>updateFFGCheckPts\<close> of \<open>env\<close>.
\<close>

definition AdvanceState_epoch ::
  "env \<Rightarrow> ChainService \<Rightarrow> BeaconState \<Rightarrow> ChainService \<times> BeaconState option \<times> error option"
  where
  "AdvanceState_epoch env c newState =
     (if IsEpochStart env (state_Slot newState) then
        (case saveValidatorIdx env c newState of
           (c1, Some e) \<Rightarrow>
             (c1, unless_panic e (Some newState),
              Some (wrap ''could not save validator index'' e))
         | (c1, None) \<Rightarrow>
             (case deleteValidatorIdx env c1 newState of
                (c2, Some e) \<Rightarrow>
                  (c2, unless_panic e (Some newState),
                   Some (wrap ''could not delete validator index'' e))
              | (c2, None) \<Rightarrow>
                  (case updateFFGCheckPts env (beaconDB c2) newState of
                     Inl e \<Rightarrow>
                       (c2, unless_panic e (Some newState),
                        Some (wrap ''could not update FFG checkpts'' e))
                   | Inr ffg \<Rightarrow>
                       (c2\<lparr>beaconDB := (beaconDB c2)\<lparr>ffgRecords := ffg\<rparr>\<rparr>,
                        Some newState, None))))
      else (c, Some newState, None))"

definition AdvanceState ::
  "env \<Rightarrow> ChainService \<Rightarrow> BeaconState option \<Rightarrow> BeaconBlock option \<Rightarrow>
     ChainService \<times> BeaconState option \<times> error option" where
  "AdvanceState env c beaconState block =
     (case beaconState of
        None \<Rightarrow> (c, None, Some (Panic ''nil pointer dereference''))
      | Some pre \<Rightarrow>
          let finalizedEpoch = Epoch (FinalizedCheckpoint pre) in
          (case ExecuteStateTransition env pre block (TransitionConfig False) of
             Inl e \<Rightarrow> (c, beaconState, Some (BlockFailedProcessingErr e))
           | Inr newState \<Rightarrow>
               let c1 = (if Epoch (FinalizedCheckpoint newState) > finalizedEpoch
                         then c\<lparr>beaconDB := ClearBlockCache (beaconDB c)\<rparr> else c) in
               (case block of
                  None \<Rightarrow> AdvanceState_epoch env c1 newState
                | Some blk \<Rightarrow>
                    (case SigningRoot env blk of
                       Inl e \<Rightarrow> (c1, None, Some e)
                     | Inr blockRoot \<Rightarrow>
                         (case SaveHistoricalState (beaconDB c1) pre blockRoot of
                            (d, Some e) \<Rightarrow>
                              (c1\<lparr>beaconDB := d\<rparr>, None,
                               Some (wrap ''could not save historical state'' e))
                          | (d, None) \<Rightarrow>
                              AdvanceState_epoch env (c1\<lparr>beaconDB := d\<rparr>) newState)))))"

text \<open>
  \<open>func (c *ChainService) ReceiveBlock(ctx, block) (*pb.BeaconState, error)\<close>: the
  service after the call, the state returned and the error. \<open>UnknownParent\<close> is
  \<open>errors.New("parent does not exist in DB")\<close>, \<open>StatePreload\<close> wraps
  \<open>"could not retrieve beacon state"\<close>, and \<open>StateRootMismatch\<close> is
  \<open>"beacon state root is not equal to block state root"\<close>. \<open>ReceiveBlock_failed\<close> is the
  \<open>switch err.(type)\<close> on the error of \<open>AdvanceState\<close>. \<open>AdvanceState\<close> returns a
  state whenever it returns no error; the branch for no state and no error is there
  for totality.
\<close>

definition ReceiveBlock_failed ::
  "env \<Rightarrow> ChainService \<Rightarrow> BeaconBlock \<Rightarrow> bytes \<Rightarrow> BeaconState option \<Rightarrow> error \<Rightarrow>
     ChainService \<times> BeaconState option \<times> error option" where
  "ReceiveBlock_failed env c block blockRoot beaconState err =
     (case err of
        BlockFailedProcessingErr e \<Rightarrow>
          (case DeleteBlock env (MarkEvilBlockHash (beaconDB c) blockRoot) block of
             (d, Some e') \<Rightarrow>
               (c\<lparr>beaconDB := d\<rparr>, None, Some (wrap ''could not delete bad block from db'' e'))
           | (d, None) \<Rightarrow> (c\<lparr>beaconDB := d\<rparr>, beaconState, Some err))
      | _ \<Rightarrow>
          (c, unless_panic err beaconState,
           Some (wrap ''could not apply block state transition'' err)))"

definition ReceiveBlock ::
  "env \<Rightarrow> ChainService \<Rightarrow> BeaconBlock \<Rightarrow> ChainService \<times> BeaconState option \<times> error option"
  where
  "ReceiveBlock env c block =
     (let parentRoot = ToBytes32 (ParentRoot block) in
      case Block (beaconDB c) parentRoot of
        Inl e \<Rightarrow> (c, None, Some (wrap ''failed to get parent block'' e))
      | Inr None \<Rightarrow> (c, None, Some UnknownParent)
      | Inr (Some parent) \<Rightarrow>
          (case HistoricalStateFromSlot env (beaconDB c) (Slot parent) parentRoot of
             Inl e \<Rightarrow> (c, None, Some (StatePreload e))
           | Inr beaconState \<Rightarrow>
               (case SigningRoot env block of
                  Inl e \<Rightarrow> (c, None, Some (Err ''could not hash beacon block''))
                | Inr blockRoot \<Rightarrow>
                    (case VerifyBlockValidity env c block beaconState of
                       Some e \<Rightarrow>
                         (c, unless_panic e beaconState,
                          Some (wrap ''block with slot %d is not ready for processing'' e))
                     | None \<Rightarrow>
                         (case SaveAndBroadcastBlock env c block of
                            (c1, Some e) \<Rightarrow>
                              (c1, unless_panic e beaconState, Some (wrap
                                ''could not save and broadcast beacon block with slot %d'' e))
                          | (c1, None) \<Rightarrow>
                              (case AdvanceState env c1 beaconState (Some block) of
                                 (c2, st, Some err) \<Rightarrow>
                                   ReceiveBlock_failed env c2 block blockRoot st err
                               | (c2, None, None) \<Rightarrow>
                                   (c2, None, Some (Panic ''nil pointer dereference''))
                               | (c2, Some newState, None) \<Rightarrow>
                                   (case HashTreeRoot_state env newState of
                                      Inl e \<Rightarrow>
                                        (c2, None, Some (wrap ''could not hash beacon state'' e))
                                    | Inr stateRoot \<Rightarrow>
                                        if StateRoot block \<noteq> stateRoot
                                        then (c2, None, Some StateRootMismatch)
                                        else
                                          (case CleanupBlockOperations env c2 block of
                                             (c3, Some e) \<Rightarrow>
                                               (c3, unless_panic e (Some newState), Some (wrap
  ''could not process block deposits, attestations, and other operations'' e))
                                           | (c3, None) \<Rightarrow> (c3, Some newState, None)))))))))"

section \<open>Preconditions and a small instance\<close>

text \<open>
  The precondition of the termination of \<open>Ancestor\<close>: every stored block other than a
  genesis block (\<open>slot = 0\<close>) has a \<open>parent_root\<close> that resolves to a stored block of a
  strictly smaller slot.
\<close>

definition parents_resolve :: "Store \<Rightarrow> bool" where
  "parents_resolve s =
     (\<forall>r b. Block (db s) r = Inr (Some b) \<and> Slot b \<noteq> 0 \<longrightarrow>
        (\<exists>p. Block (db s) (ToBytes32 (ParentRoot b)) = Inr (Some p) \<and> Slot p < Slot b))"

text \<open>
  A small instance on which the model runs: roots are a first byte followed by 31 zero
  bytes; the collaborators are simple total functions (the signing root and the two
  tree-hash roots are read off the slot, and differ from one another); the chain is a
  genesis block and one child.
\<close>

definition root_of :: "byte \<Rightarrow> bytes" where
  "root_of n = n # replicate 31 0"

definition empty_BeaconDB :: BeaconDB where
  "empty_BeaconDB =
     \<lparr>blocks = Map.empty, blockCache = Map.empty, evil = {}, highestBlockSlot = 0,
      attestationTargets = Map.empty, states = Map.empty, historicalStates = Map.empty,
      checkpointStates = Map.empty, latestMessages = Map.empty, validatorIndex = Map.empty,
      pendingDeposits = [],
      ffgRecords = \<lparr>justifiedBlock = None, finalizedBlock = None, justifiedState = None,
                    finalizedState = None\<rparr>\<rparr>"

definition ex_env :: env where
  "ex_env =
     \<lparr>SigningRoot = (\<lambda>b. Inr (root_of (ucast (Slot b) + 1))),
      HashTreeRoot_block = (\<lambda>b. Inr (root_of (ucast (Slot b) + 101))),
      HashTreeRoot_state = (\<lambda>st. Inr (root_of (ucast (state_Slot st) + 201))),
      ExecuteStateTransition =
        (\<lambda>pre blk cfg. Inr (pre\<lparr>state_Slot :=
           (case blk of Some b \<Rightarrow> Slot b | None \<Rightarrow> state_Slot pre + 1)\<rparr>)),
      ProcessSlots = (\<lambda>st slot. Inr (st\<lparr>state_Slot := slot\<rparr>)),
      AttestationDataSlot = (\<lambda>st d. Inr (state_Slot st)),
      VerifyIndexedAttestation = (\<lambda>ia v. None),
      ActiveValidatorIndices = (\<lambda>st e. Inr (map of_nat [0..<length (Validators st)])),
      IsValidBlock = (\<lambda>st b has t. None),
      HistoricalStateFromSlot = (\<lambda>d slot root. Inr (historicalStates d root)),
      updateFFGCheckPts = (\<lambda>d st. Inr (ffgRecords d)),
      BatchUpdateLatestAttestation = (\<lambda>atts. None),
      SecondsPerSlot = 6,
      SlotsPerEpoch = 64\<rparr>"

definition ex_state :: BeaconState where
  "ex_state =
     \<lparr>GenesisTime = 1000, state_Slot = 0,
      Validators = [\<lparr>PublicKey = [1], EffectiveBalance = 32\<rparr>,
                    \<lparr>PublicKey = [2], EffectiveBalance = 32\<rparr>],
      PreviousJustifiedCheckpoint = \<lparr>Epoch = 0, Root = []\<rparr>,
      CurrentJustifiedCheckpoint = \<lparr>Epoch = 0, Root = []\<rparr>,
      FinalizedCheckpoint = \<lparr>Epoch = 0, Root = []\<rparr>,
      Eth1DepositIndex = 0\<rparr>"

definition ex_genesis :: BeaconBlock where
  "ex_genesis = zero_BeaconBlock\<lparr>StateRoot := root_of 201\<rparr>"

definition ex_block :: "uint64 \<Rightarrow> bytes \<Rightarrow> bytes \<Rightarrow> BeaconBlock" where
  "ex_block slot parent stateRoot =
     \<lparr>Slot = slot, ParentRoot = parent, StateRoot = stateRoot,
      Body = Some \<lparr>RandaoReveal = [], Attestations = [], Deposits = []\<rparr>, Signature = []\<rparr>"

definition ex_genesis_db :: BeaconDB where
  "ex_genesis_db = empty_BeaconDB
     \<lparr>blocks := [root_of 1 \<mapsto> ex_genesis],
      historicalStates := [root_of 1 \<mapsto> ex_state]\<rparr>"

definition ex_db :: BeaconDB where
  "ex_db = ex_genesis_db
     \<lparr>blocks := (blocks ex_genesis_db)(root_of 2 \<mapsto> ex_block 1 (root_of 1) (root_of 202))\<rparr>"

definition ex_store :: Store where
  "ex_store = \<lparr>time = 2000, justifiedCheckpt = Some \<lparr>Epoch = 0, Root = root_of 1\<rparr>,
               finalizedCheckpt = Some \<lparr>Epoch = 0, Root = root_of 1\<rparr>, db = ex_db\<rparr>"

definition ex_chain :: ChainService where
  "ex_chain =
     \<lparr>beaconDB = ex_genesis_db, genesisTime = 1000, finalizedEpoch = 0,
      canonicalBlocks = Map.empty, maxRoutines = 100, p2pBroadcasts = [], opsPoolFeed = [],
      activatedValidators = (\<lambda>epoch. []), exitedValidators = (\<lambda>epoch. [])\<rparr>"


definition ex_bad :: BeaconBlock where
  "ex_bad = ex_block 1 (root_of 1) (root_of 99)"

definition ex_fork :: BeaconBlock where
  "ex_fork = ex_block 128 (root_of 1) (root_of 73)"

definition ex_env_justifying :: env where
  "ex_env_justifying = ex_env
     \<lparr>ExecuteStateTransition :=
        (\<lambda>pre blk cfg. Inr (pre
           \<lparr>state_Slot := (case blk of Some b \<Rightarrow> Slot b | None \<Rightarrow> state_Slot pre + 1),
            CurrentJustifiedCheckpoint := \<lparr>Epoch = 1, Root = root_of 65\<rparr>,
            FinalizedCheckpoint := \<lparr>Epoch = 1, Root = root_of 65\<rparr>\<rparr>))\<rparr>"

definition ex_att :: Attestation where
  "ex_att =
     \<lparr>AggregationBits = [1],
      Data = \<lparr>BeaconBlockRoot = root_of 2, Source = \<lparr>Epoch = 0, Root = root_of 1\<rparr>,
              Target = \<lparr>Epoch = 0, Root = root_of 1\<rparr>\<rparr>,
      CustodyBits = [0], att_Signature = []\<rparr>"

section \<open>Properties\<close>

subsection \<open>Roots of the instance\<close>

lemma root_of_inj: "(root_of a = root_of b) = (a = b)"
  by (simp add: root_of_def)

lemma ToBytes32_root_of: "ToBytes32 (root_of a) = root_of a"
  by (simp add: ToBytes32_def root_of_def)

lemma ToBytes32_Nil: "ToBytes32 [] = root_of 0"
proof -
  have r: "replicate 32 (0::byte) = 0 # replicate 31 0"
    using replicate_Suc [of 31 "0::byte"] by simp
  show ?thesis by (simp add: ToBytes32_def root_of_def r)
qed

lemma Block_ex_store_1: "Block (db ex_store) (ToBytes32 (root_of 1)) = Inr (Some ex_genesis)"
  by (simp add: Block_def ex_store_def ex_db_def ex_genesis_db_def empty_BeaconDB_def
      root_of_inj ToBytes32_root_of)

lemma Block_ex_store_2:
  "Block (db ex_store) (ToBytes32 (root_of 2)) = Inr (Some (ex_block 1 (root_of 1) (root_of 202)))"
  by (simp add: Block_def ex_store_def ex_db_def ex_genesis_db_def empty_BeaconDB_def
      root_of_inj ToBytes32_root_of)

lemma parents_resolve_ex_store: "parents_resolve ex_store"
  unfolding parents_resolve_def
  by (auto simp: Block_def ex_store_def ex_db_def ex_genesis_db_def empty_BeaconDB_def
      root_of_inj ToBytes32_root_of ex_block_def ex_genesis_def zero_BeaconBlock_def
      split: if_splits)

subsection \<open>The ancestor walk\<close>

text \<open>
  Claim C6. \<open>Ancestor(root, slot)\<close>, for a root whose block \<open>b\<close> is stored: when
  \<open>b.Slot < slot\<close> the call fails (with the slot-underflow error); when
  \<open>b.Slot = slot\<close> it returns \<open>root\<close> itself; otherwise its result is that of
  \<open>Ancestor(b.ParentRoot, slot)\<close>. In particular the ancestor of \<open>r\<close> at its own slot
  is \<open>r\<close>, and the ancestor at a later slot fails.
\<close>

theorem Ancestor_cases:
  assumes "Block (db s) (ToBytes32 root) = Inr (Some b)"
  shows "(Slot b < slot \<longrightarrow> Ancestor s root slot = Some (Inl SlotUnderflow)) \<and>
         (Slot b = slot \<longrightarrow> Ancestor s root slot = Some (Inr root)) \<and>
         (slot < Slot b \<longrightarrow> Ancestor s root slot = Ancestor s (ParentRoot b) slot)"
  using assms
  by (subst Ancestor.simps, subst (2) Ancestor.simps, subst (3) Ancestor.simps) auto

theorem Ancestor_cases_witness:
  "Ancestor ex_store (root_of 2) 5 = Some (Inl SlotUnderflow) \<and>
   Ancestor ex_store (root_of 2) 1 = Some (Inr (root_of 2)) \<and>
   Ancestor ex_store (root_of 2) 0 = Ancestor ex_store (root_of 1) 0 \<and>
   Ancestor ex_store (root_of 1) 0 = Some (Inr (root_of 1))"
  using Ancestor_cases [OF Block_ex_store_2, of 5] Ancestor_cases [OF Block_ex_store_2, of 1]
    Ancestor_cases [OF Block_ex_store_2, of 0] Ancestor_cases [OF Block_ex_store_1, of 0]
  by (simp add: ex_block_def ex_genesis_def zero_BeaconBlock_def)

text \<open>
  Claim C7. \<open>Ancestor(root, slot)\<close> terminates (returns a root or an error) for every
  stored root, provided every stored block other than a genesis block has a parent
  root that resolves to a stored block of a strictly smaller slot: the slot of the
  block looked at decreases with every parent step.
\<close>

theorem Ancestor_terminates:
  "parents_resolve s \<Longrightarrow> Block (db s) (ToBytes32 root) = Inr (Some b) \<Longrightarrow>
   \<exists>y. Ancestor s root slot = Some y"
proof (induction "unat (Slot b)" arbitrary: root b rule: less_induct)
  case less
  show ?case
  proof (cases "Slot b \<le> slot")
    case True
    then show ?thesis using less.prems(2)
      by (subst Ancestor.simps) auto
  next
    case False
    then have gt: "slot < Slot b" by simp
    then have "Slot b \<noteq> 0" by (metis word_not_simps(1))
    with less.prems obtain p where
      p: "Block (db s) (ToBytes32 (ParentRoot b)) = Inr (Some p)" "Slot p < Slot b"
      unfolding parents_resolve_def by blast
    from p(2) have "unat (Slot p) < unat (Slot b)" by (simp add: word_less_nat_alt)
    from less.hyps [OF this less.prems(1) p(1)]
    obtain y where "Ancestor s (ParentRoot b) slot = Some y" by blast
    then show ?thesis using less.prems(2) gt
      by (subst Ancestor.simps) auto
  qed
qed

theorem Ancestor_terminates_witness:
  "parents_resolve ex_store \<and> (\<exists>y. Ancestor ex_store (root_of 2) 0 = Some y)"
  using Ancestor_terminates [OF parents_resolve_ex_store Block_ex_store_2, of 0]
    parents_resolve_ex_store
  by simp

subsection \<open>The wall time of the store\<close>

lemma OnTicks_trace_eq: "OnTicks_trace s ts = ts"
  by (induction ts arbitrary: s) (simp_all add: OnTick_def)

lemma OnTicks_time: "time (OnTicks s ts) = last (time s # ts)"
  by (induction ts arbitrary: s) (simp_all add: OnTick_def)

text \<open>
  Claim C8, as amended. After \<open>OnTick(u)\<close> the stored time is \<open>u\<close>, whatever it was
  before, and after a sequence of calls it is the last time passed; over the sequence
  the stored time takes exactly the values passed, so it is non-decreasing over the
  sequence exactly when the times passed are non-decreasing and start at or above the
  time stored before the first call.
\<close>

theorem OnTick_sets_time:
  "time (OnTick s u) = u \<and>
   time (OnTicks s ts) = last (time s # ts) \<and>
   sorted (time s # OnTicks_trace s ts) = sorted (time s # ts)"
  by (simp add: OnTick_def OnTicks_trace_eq OnTicks_time del: last.simps)

text \<open>The claim as stated fails: a tick at 5 followed by a tick at 3 leaves the stored
  time at 3, below the 5 it held.\<close>

theorem OnTick_not_monotonic:
  "time (OnTick (OnTick ex_store 5) 3) < time (OnTick ex_store 5)"
  by (simp add: OnTick_def)

subsection \<open>The canonical roots\<close>

text \<open>
  Claim C10. \<open>UpdateCanonicalRoots(newHead, r)\<close> sets the entry of the canonical-blocks
  map at slot \<open>newHead.Slot\<close> to \<open>r\<close> and leaves the entry at every other slot as it
  was; afterwards \<open>IsCanonical(newHead.Slot, r)\<close> is true; and for a slot with no
  entry \<open>IsCanonical\<close> is false for every hash.
\<close>

theorem UpdateCanonicalRoots_IsCanonical:
  "canonicalBlocks (UpdateCanonicalRoots c newHead r) (Slot newHead) = Some r \<and>
   (\<forall>s. s \<noteq> Slot newHead \<longrightarrow>
        canonicalBlocks (UpdateCanonicalRoots c newHead r) s = canonicalBlocks c s) \<and>
   IsCanonical (UpdateCanonicalRoots c newHead r) (Slot newHead) r \<and>
   (\<forall>s h. canonicalBlocks c s = None \<longrightarrow> \<not> IsCanonical c s h)"
  by (simp add: UpdateCanonicalRoots_def IsCanonical_def)

theorem UpdateCanonicalRoots_IsCanonical_witness:
  "canonicalBlocks (UpdateCanonicalRoots ex_chain (ex_block 1 (root_of 1) (root_of 202))
       (root_of 2)) 1 = Some (root_of 2) \<and>
   canonicalBlocks (UpdateCanonicalRoots ex_chain (ex_block 1 (root_of 1) (root_of 202))
       (root_of 2)) 7 = canonicalBlocks ex_chain 7 \<and>
   IsCanonical (UpdateCanonicalRoots ex_chain (ex_block 1 (root_of 1) (root_of 202))
       (root_of 2)) 1 (root_of 2) \<and>
   canonicalBlocks ex_chain 7 = None \<and>
   \<not> IsCanonical ex_chain 7 (root_of 2)"
  using UpdateCanonicalRoots_IsCanonical [of ex_chain "ex_block 1 (root_of 1) (root_of 202)"
      "root_of 2"]
  by (simp add: ex_block_def ex_chain_def)

subsection \<open>The block pipeline: a block of slot 0\<close>


lemma Block_ex_chain_1: "Block (beaconDB ex_chain) (ToBytes32 (root_of 1)) = Inr (Some ex_genesis)"
  by (simp add: Block_def ex_chain_def ex_genesis_db_def empty_BeaconDB_def
      root_of_inj ToBytes32_root_of)

lemma HistoricalState_ex_chain_1:
  "HistoricalStateFromSlot ex_env (beaconDB ex_chain) slot (ToBytes32 (root_of 1))
     = Inr (Some ex_state)"
  by (simp add: ex_env_def ex_chain_def ex_genesis_db_def empty_BeaconDB_def
      root_of_inj ToBytes32_root_of)




subsection \<open>The block pipeline: what the state transition leaves of the blocks\<close>

lemma saveValidatorIdx_loop_frame:
  "saveValidatorIdx_loop d st idxs acc = (d', r) \<Longrightarrow>
   blocks d' = blocks d \<and> blockCache d' = blockCache d \<and> evil d' = evil d"
  by (induction idxs arbitrary: d acc)
    (auto simp: SaveValidatorIndex_def split: if_splits)

lemma deleteValidatorIdx_loop_frame:
  "deleteValidatorIdx_loop d st idxs = (d', r) \<Longrightarrow>
   blocks d' = blocks d \<and> blockCache d' = blockCache d \<and> evil d' = evil d"
  by (induction idxs arbitrary: d)
    (auto simp: DeleteValidatorIndex_def split: if_splits)

lemma saveValidatorIdx_frame:
  assumes "saveValidatorIdx env c st = (c', r)"
  shows "blocks (beaconDB c') = blocks (beaconDB c) \<and>
         blockCache (beaconDB c') = blockCache (beaconDB c) \<and>
         evil (beaconDB c') = evil (beaconDB c)"
proof -
  obtain d x where l: "saveValidatorIdx_loop (beaconDB c) st
      (activatedValidators c (CurrentEpoch env st + 1)) [] = (d, x)"
    by (cases "saveValidatorIdx_loop (beaconDB c) st
      (activatedValidators c (CurrentEpoch env st + 1)) []")
  from assms l have "beaconDB c' = d"
    by (cases x) (auto simp: saveValidatorIdx_def Let_def)
  with saveValidatorIdx_loop_frame [OF l] show ?thesis by simp
qed

lemma deleteValidatorIdx_frame:
  assumes "deleteValidatorIdx env c st = (c', r)"
  shows "blocks (beaconDB c') = blocks (beaconDB c) \<and>
         blockCache (beaconDB c') = blockCache (beaconDB c) \<and>
         evil (beaconDB c') = evil (beaconDB c)"
proof -
  obtain d x where l: "deleteValidatorIdx_loop (beaconDB c) st
      (exitedValidators c (CurrentEpoch env st + 1)) = (d, x)"
    by (cases "deleteValidatorIdx_loop (beaconDB c) st
      (exitedValidators c (CurrentEpoch env st + 1))")
  from assms l have "beaconDB c' = d"
    by (cases x) (auto simp: deleteValidatorIdx_def)
  with deleteValidatorIdx_loop_frame [OF l] show ?thesis by simp
qed

lemma AdvanceState_epoch_frame:
  assumes "AdvanceState_epoch env c st = (c', r)"
  shows "blocks (beaconDB c') = blocks (beaconDB c) \<and>
         blockCache (beaconDB c') = blockCache (beaconDB c) \<and>
         evil (beaconDB c') = evil (beaconDB c)"
proof (cases "IsEpochStart env (state_Slot st)")
  case False
  with assms show ?thesis by (simp add: AdvanceState_epoch_def)
next
  case True
  obtain c1 e1 where s1: "saveValidatorIdx env c st = (c1, e1)"
    by (cases "saveValidatorIdx env c st")
  obtain c2 e2 where s2: "deleteValidatorIdx env c1 st = (c2, e2)"
    by (cases "deleteValidatorIdx env c1 st")
  note f1 = saveValidatorIdx_frame [OF s1]
  note f2 = deleteValidatorIdx_frame [OF s2]
  show ?thesis
  proof (cases e1)
    case (Some e)
    with assms True s1 have "c' = c1" by (simp add: AdvanceState_epoch_def)
    with f1 show ?thesis by simp
  next
    case None
    note n1 = this
    show ?thesis
    proof (cases e2)
      case (Some e)
      with assms True s1 s2 n1 have "c' = c2" by (simp add: AdvanceState_epoch_def)
      with f1 f2 show ?thesis by simp
    next
      case None
      with assms True s1 s2 n1
      have "beaconDB c' = beaconDB c2 \<or>
            (\<exists>ffg. beaconDB c' = (beaconDB c2)\<lparr>ffgRecords := ffg\<rparr>)"
        by (cases "updateFFGCheckPts env (beaconDB c2) st")
          (auto simp: AdvanceState_epoch_def)
      with f1 f2 show ?thesis by auto
    qed
  qed
qed

lemma AdvanceState_frame:
  assumes "AdvanceState env c st blk = (c', r)"
  shows "blocks (beaconDB c') = blocks (beaconDB c) \<and> evil (beaconDB c') = evil (beaconDB c) \<and>
   (blockCache (beaconDB c') = blockCache (beaconDB c) \<or> blockCache (beaconDB c') = Map.empty)"
proof (cases st)
  case None
  with assms show ?thesis by (simp add: AdvanceState_def)
next
  case (Some pre)
  note pre = this
  show ?thesis
  proof (cases "ExecuteStateTransition env pre blk (TransitionConfig False)")
    case (Inl e)
    with assms pre show ?thesis by (simp add: AdvanceState_def)
  next
    case (Inr newState)
    note ns = this
    define c1 where
      "c1 = (if Epoch (FinalizedCheckpoint newState) > Epoch (FinalizedCheckpoint pre)
             then c\<lparr>beaconDB := ClearBlockCache (beaconDB c)\<rparr> else c)"
    have f1: "blocks (beaconDB c1) = blocks (beaconDB c) \<and>
      evil (beaconDB c1) = evil (beaconDB c) \<and>
      (blockCache (beaconDB c1) = blockCache (beaconDB c) \<or>
       blockCache (beaconDB c1) = Map.empty)"
      by (simp add: c1_def ClearBlockCache_def)
    from assms pre ns have a: "(case blk of
                  None \<Rightarrow> AdvanceState_epoch env c1 newState
                | Some b \<Rightarrow>
                    (case SigningRoot env b of
                       Inl e \<Rightarrow> (c1, None, Some e)
                     | Inr blockRoot \<Rightarrow>
                         (case SaveHistoricalState (beaconDB c1) pre blockRoot of
                            (d, Some e) \<Rightarrow>
                              (c1\<lparr>beaconDB := d\<rparr>, None,
                               Some (wrap ''could not save historical state'' e))
                          | (d, None) \<Rightarrow>
                              AdvanceState_epoch env (c1\<lparr>beaconDB := d\<rparr>) newState))) = (c', r)"
      unfolding c1_def by (simp add: AdvanceState_def Let_def)
    have "blocks (beaconDB c') = blocks (beaconDB c1) \<and>
         blockCache (beaconDB c') = blockCache (beaconDB c1) \<and>
         evil (beaconDB c') = evil (beaconDB c1)"
    proof (cases blk)
      case None
      with a show ?thesis by (simp add: AdvanceState_epoch_frame)
    next
      case (Some b)
      note b = this
      show ?thesis
      proof (cases "SigningRoot env b")
        case (Inl e)
        with a b show ?thesis by auto
      next
        case (Inr blockRoot)
        with a b have "AdvanceState_epoch env
            (c1\<lparr>beaconDB := (beaconDB c1)\<lparr>historicalStates :=
               (historicalStates (beaconDB c1))(blockRoot \<mapsto> pre)\<rparr>\<rparr>) newState = (c', r)"
          by (simp add: SaveHistoricalState_def)
        from AdvanceState_epoch_frame [OF this] show ?thesis by simp
      qed
    qed
    with f1 show ?thesis by auto
  qed
qed

lemma SaveAndBroadcastBlock_saved:
  "SaveAndBroadcastBlock env c block = (c1, None) \<Longrightarrow> SigningRoot env block = Inr r \<Longrightarrow>
   blocks (beaconDB c1) r = Some block \<and> blockCache (beaconDB c1) r = Some block \<and>
   r \<notin> evil (beaconDB c1)"
  by (auto simp: SaveAndBroadcastBlock_def SaveBlock_def SaveAttestationTarget_def
      split: if_splits)

subsection \<open>The block pipeline: a state root that does not match\<close>

lemma ReceiveBlock_mismatch_result:
  assumes "Block (beaconDB c) (ToBytes32 (ParentRoot block)) = Inr (Some parent)"
    and "HistoricalStateFromSlot env (beaconDB c) (Slot parent)
           (ToBytes32 (ParentRoot block)) = Inr pre"
    and "SigningRoot env block = Inr blockRoot"
    and "VerifyBlockValidity env c block pre = None"
    and "SaveAndBroadcastBlock env c block = (c1, None)"
    and "AdvanceState env c1 pre (Some block) = (c2, Some post, None)"
    and "HashTreeRoot_state env post = Inr stateRoot"
    and "stateRoot \<noteq> StateRoot block"
  shows "ReceiveBlock env c block = (c2, None, Some StateRootMismatch)"
  using assms by (auto simp: ReceiveBlock_def Let_def)

lemma ReceiveBlock_failed_processing:
  assumes "Block (beaconDB c) (ToBytes32 (ParentRoot block)) = Inr (Some parent)"
    and "HistoricalStateFromSlot env (beaconDB c) (Slot parent)
           (ToBytes32 (ParentRoot block)) = Inr pre"
    and "SigningRoot env block = Inr blockRoot"
    and "VerifyBlockValidity env c block pre = None"
    and "SaveAndBroadcastBlock env c block = (c1, None)"
    and "AdvanceState env c1 pre (Some block) = (c2, st, Some (BlockFailedProcessingErr e))"
  shows "\<exists>c3. ReceiveBlock env c block = (c3, st, Some (BlockFailedProcessingErr e)) \<and>
              blockRoot \<in> evil (beaconDB c3) \<and> Block (beaconDB c3) blockRoot = Inr None"
  using assms
  by (cases st)
    (simp_all add: ReceiveBlock_def Let_def ReceiveBlock_failed_def DeleteBlock_def
      MarkEvilBlockHash_def Block_def)

text \<open>
  Claim C4, on the code. When the pipeline reaches the state transition of a block
  (the parent is stored, the pre-state loads, the block passes the pre-validity check
  and is saved and broadcast), the transition succeeds with a post-state, and the
  tree-hash root of the post-state differs from \<open>block.state_root\<close>, then
  \<open>ReceiveBlock\<close> fails with the state-root-mismatch error and returns no state, but
  the block's root is not on the evil list and the block is still stored under its
  root: the service is as \<open>AdvanceState\<close> left it. (When the state transition itself
  fails, the root is put on the evil list and the block is deleted, as the lemma above
  shows.)
\<close>

theorem ReceiveBlock_state_root_mismatch:
  assumes parent: "Block (beaconDB c) (ToBytes32 (ParentRoot block)) = Inr (Some parent)"
    and pre: "HistoricalStateFromSlot env (beaconDB c) (Slot parent)
                (ToBytes32 (ParentRoot block)) = Inr pre"
    and root: "SigningRoot env block = Inr blockRoot"
    and valid: "VerifyBlockValidity env c block pre = None"
    and saved: "SaveAndBroadcastBlock env c block = (c1, None)"
    and adv: "AdvanceState env c1 pre (Some block) = (c2, Some post, None)"
    and htr: "HashTreeRoot_state env post = Inr stateRoot"
    and mismatch: "stateRoot \<noteq> StateRoot block"
  shows "ReceiveBlock env c block = (c2, None, Some StateRootMismatch) \<and>
         blockRoot \<notin> evil (beaconDB c2) \<and>
         Block (beaconDB c2) blockRoot = Inr (Some block)"
proof -
  from SaveAndBroadcastBlock_saved [OF saved root] AdvanceState_frame [OF adv]
  have "blockRoot \<notin> evil (beaconDB c2)" "Block (beaconDB c2) blockRoot = Inr (Some block)"
    by (auto simp: Block_def)
  with ReceiveBlock_mismatch_result [OF assms] show ?thesis by simp
qed

lemma ex_bad_fields:
  "Slot ex_bad = 1" "ParentRoot ex_bad = root_of 1" "StateRoot ex_bad = root_of 99"
  "SigningRoot ex_env ex_bad = Inr (root_of 2)"
  by (simp_all add: ex_bad_def ex_block_def ex_env_def)

lemma ex_bad_parent:
  "Block (beaconDB ex_chain) (ToBytes32 (ParentRoot ex_bad)) = Inr (Some ex_genesis)"
  by (simp add: ex_bad_fields Block_ex_chain_1)

lemma ex_bad_pre:
  "HistoricalStateFromSlot ex_env (beaconDB ex_chain) (Slot ex_genesis)
     (ToBytes32 (ParentRoot ex_bad)) = Inr (Some ex_state)"
  by (simp add: ex_bad_fields HistoricalState_ex_chain_1)

lemma ex_bad_valid: "VerifyBlockValidity ex_env ex_chain ex_bad (Some ex_state) = None"
  by (simp add: VerifyBlockValidity_def ex_bad_fields) (simp add: ex_env_def)

lemma ex_bad_saved:
  "SaveAndBroadcastBlock ex_env ex_chain ex_bad =
     (fst (SaveAndBroadcastBlock ex_env ex_chain ex_bad), None)"
proof -
  have "root_of 2 \<notin> evil (beaconDB ex_chain)"
    by (simp add: ex_chain_def ex_genesis_db_def empty_BeaconDB_def)
  then have "snd (SaveAndBroadcastBlock ex_env ex_chain ex_bad) = None"
    by (simp add: SaveAndBroadcastBlock_def SaveBlock_def SaveAttestationTarget_def ex_bad_fields)
  then show ?thesis by (simp add: prod_eq_iff)
qed

lemma ex_bad_advance:
  "AdvanceState ex_env c (Some ex_state) (Some ex_bad) =
     (fst (AdvanceState ex_env c (Some ex_state) (Some ex_bad)),
      Some (ex_state\<lparr>state_Slot := 1\<rparr>), None)"
proof -
  have t: "ExecuteStateTransition ex_env ex_state (Some ex_bad) (TransitionConfig False)
             = Inr (ex_state\<lparr>state_Slot := 1\<rparr>)"
    by (simp add: ex_env_def ex_bad_fields)
  have e: "\<not> IsEpochStart ex_env 1"
    by (simp add: IsEpochStart_def ex_env_def)
  have "snd (AdvanceState ex_env c (Some ex_state) (Some ex_bad)) =
          (Some (ex_state\<lparr>state_Slot := 1\<rparr>), None)"
    by (simp add: AdvanceState_def Let_def t ex_bad_fields SaveHistoricalState_def
        AdvanceState_epoch_def e)
  then show ?thesis by (simp add: prod_eq_iff)
qed

lemma ex_bad_htr: "HashTreeRoot_state ex_env (ex_state\<lparr>state_Slot := 1\<rparr>) = Inr (root_of 202)"
  by (simp add: ex_env_def)

lemma ex_bad_mismatch: "root_of 202 \<noteq> StateRoot ex_bad"
  by (simp add: ex_bad_fields root_of_inj)

theorem ReceiveBlock_state_root_mismatch_witness:
  "ReceiveBlock ex_env ex_chain ex_bad =
     (fst (AdvanceState ex_env (fst (SaveAndBroadcastBlock ex_env ex_chain ex_bad))
             (Some ex_state) (Some ex_bad)), None, Some StateRootMismatch) \<and>
   root_of 2 \<notin> evil (beaconDB
     (fst (AdvanceState ex_env (fst (SaveAndBroadcastBlock ex_env ex_chain ex_bad))
             (Some ex_state) (Some ex_bad)))) \<and>
   Block (beaconDB
     (fst (AdvanceState ex_env (fst (SaveAndBroadcastBlock ex_env ex_chain ex_bad))
             (Some ex_state) (Some ex_bad)))) (root_of 2) = Inr (Some ex_bad)"
  by (rule ReceiveBlock_state_root_mismatch [OF ex_bad_parent ex_bad_pre ex_bad_fields(4)
        ex_bad_valid ex_bad_saved ex_bad_advance ex_bad_htr ex_bad_mismatch])

text \<open>On the instance: \<open>ex_bad\<close> passes the state transition, its state root does not
  match, \<open>ReceiveBlock\<close> returns the state-root-mismatch error, and afterwards the
  block's root is not on the evil list and the block is still in the store.\<close>

theorem ReceiveBlock_mismatch_keeps_block:
  "snd (ReceiveBlock ex_env ex_chain ex_bad) = (None, Some StateRootMismatch) \<and>
   root_of 2 \<notin> evil (beaconDB (fst (ReceiveBlock ex_env ex_chain ex_bad))) \<and>
   HasBlock (beaconDB (fst (ReceiveBlock ex_env ex_chain ex_bad))) (root_of 2)"
proof -
  let ?c1 = "fst (SaveAndBroadcastBlock ex_env ex_chain ex_bad)"
  let ?c2 = "fst (AdvanceState ex_env ?c1 (Some ex_state) (Some ex_bad))"
  have r: "ReceiveBlock ex_env ex_chain ex_bad = (?c2, None, Some StateRootMismatch)"
    by (rule ReceiveBlock_mismatch_result [OF ex_bad_parent ex_bad_pre ex_bad_fields(4)
          ex_bad_valid ex_bad_saved ex_bad_advance ex_bad_htr ex_bad_mismatch])
  from SaveAndBroadcastBlock_saved [OF ex_bad_saved ex_bad_fields(4)]
    AdvanceState_frame [OF ex_bad_advance [of ?c1]]
  have "root_of 2 \<notin> evil (beaconDB ?c2)" "HasBlock (beaconDB ?c2) (root_of 2)"
    by (auto simp: HasBlock_def Block_def)
  then show ?thesis by (simp add: r)
qed

subsection \<open>The genesis store\<close>

text \<open>
  Claim C5, on the code. A successful \<open>GensisStore\<close> sets the time to the genesis time
  of the state, builds the genesis block from the tree-hash root of the state, and
  saves the block, the state and the checkpoint state; but the root of both
  checkpoints is the tree-hash root of the genesis block (\<open>ssz.HashTreeRoot\<close>), while
  the block is stored under its signing root (\<open>ssz.SigningRoot\<close>).
\<close>

theorem GensisStore_success:
  assumes "GensisStore env s st = (s', None)"
  shows "\<exists>stateRoot blkRoot sigRoot.
           HashTreeRoot_state env st = Inr stateRoot \<and>
           HashTreeRoot_block env (zero_BeaconBlock\<lparr>StateRoot := stateRoot\<rparr>) = Inr blkRoot \<and>
           SigningRoot env (zero_BeaconBlock\<lparr>StateRoot := stateRoot\<rparr>) = Inr sigRoot \<and>
           time s' = GenesisTime st \<and>
           justifiedCheckpt s' = Some \<lparr>Epoch = 0, Root = blkRoot\<rparr> \<and>
           finalizedCheckpt s' = Some \<lparr>Epoch = 0, Root = blkRoot\<rparr> \<and>
           Block (db s') sigRoot = Inr (Some (zero_BeaconBlock\<lparr>StateRoot := stateRoot\<rparr>)) \<and>
           states (db s') stateRoot = Some st \<and>
           checkpointStates (db s') \<lparr>Epoch = 0, Root = blkRoot\<rparr> = Some st"
  using assms
  by (auto simp: GensisStore_def Let_def SaveBlock_def SaveState_def SaveCheckpointState_def
      Block_def split: sum.splits if_splits)

lemma ex_genesis_roots:
  "HashTreeRoot_state ex_env ex_state = Inr (root_of 201)"
  "HashTreeRoot_block ex_env ex_genesis = Inr (root_of 101)"
  "SigningRoot ex_env ex_genesis = Inr (root_of 1)"
  "zero_BeaconBlock\<lparr>StateRoot := root_of 201\<rparr> = ex_genesis"
  by (simp_all add: ex_env_def ex_state_def ex_genesis_def zero_BeaconBlock_def)

lemma ex_GensisStore:
  "snd (GensisStore ex_env (NewForkChoiceService empty_BeaconDB) ex_state) = None \<and>
   Block (db (fst (GensisStore ex_env (NewForkChoiceService empty_BeaconDB) ex_state)))
     (root_of 101) = Inr None"
  by (simp add: GensisStore_def Let_def ex_genesis_roots SaveBlock_def SaveState_def
      SaveCheckpointState_def NewForkChoiceService_def empty_BeaconDB_def Block_def
      root_of_inj)

theorem GensisStore_success_witness:
  "\<exists>s'. GensisStore ex_env (NewForkChoiceService empty_BeaconDB) ex_state = (s', None) \<and>
     time s' = 1000 \<and>
     justifiedCheckpt s' = Some \<lparr>Epoch = 0, Root = root_of 101\<rparr> \<and>
     finalizedCheckpt s' = Some \<lparr>Epoch = 0, Root = root_of 101\<rparr> \<and>
     SigningRoot ex_env ex_genesis = Inr (root_of 1) \<and>
     Block (db s') (root_of 1) = Inr (Some ex_genesis) \<and>
     Block (db s') (root_of 101) = Inr None"
proof -
  obtain s' where
    s': "GensisStore ex_env (NewForkChoiceService empty_BeaconDB) ex_state = (s', None)"
    using ex_GensisStore
    by (cases "GensisStore ex_env (NewForkChoiceService empty_BeaconDB) ex_state") simp
  have t: "GenesisTime ex_state = 1000" by (simp add: ex_state_def)
  from GensisStore_success [OF s'] ex_GensisStore s' show ?thesis
    by (auto simp: ex_genesis_roots t)
qed

subsection \<open>The checkpoints of the store\<close>

text \<open>
  Claim C3, on the code. Whatever \<open>OnBlock\<close> returns, the roots of the store's
  justified and finalized checkpoints are the roots they were before the call: when
  the post-state has a later justified or finalized epoch, only the epoch of the
  store's checkpoint is assigned.
\<close>

theorem OnBlock_keeps_roots:
  assumes "OnBlock env s b = Some (s', r)"
  shows "map_option Root (justifiedCheckpt s') = map_option Root (justifiedCheckpt s) \<and>
         map_option Root (finalizedCheckpt s') = map_option Root (finalizedCheckpt s)"
  using assms
  by (auto simp: OnBlock_def OnBlock_finalized_def Let_def
      split: sum.splits option.splits prod.splits if_splits)

lemma ex_fork_fields:
  "Slot ex_fork = 128" "ParentRoot ex_fork = root_of 1"
  "SigningRoot ex_env_justifying ex_fork = Inr (root_of 129)"
  by (simp_all add: ex_fork_def ex_block_def ex_env_justifying_def ex_env_def)

lemma ex_fork_transition:
  "ExecuteStateTransition ex_env_justifying ex_state (Some ex_fork) DefaultConfig =
     Inr (ex_state\<lparr>state_Slot := 128,
                   CurrentJustifiedCheckpoint := \<lparr>Epoch = 1, Root = root_of 65\<rparr>,
                   FinalizedCheckpoint := \<lparr>Epoch = 1, Root = root_of 65\<rparr>\<rparr>)"
  by (simp add: ex_env_justifying_def ex_env_def ex_fork_fields)

lemma ex_fork_ancestor:
  assumes "blockCache d (root_of 129) = Some ex_fork" "blockCache d (root_of 1) = None"
    "blocks d (root_of 1) = Some ex_genesis"
  shows "Ancestor (s\<lparr>db := d\<rparr>) (root_of 129) 0 = Some (Inr (root_of 1))"
  using assms
  by (subst Ancestor.simps, subst Ancestor.simps)
    (simp add: Block_def ToBytes32_root_of ex_fork_fields ex_genesis_def zero_BeaconBlock_def)

lemma ex_fork_OnBlock:
  "\<exists>s'. OnBlock ex_env_justifying ex_store ex_fork = Some (s', None) \<and>
        justifiedCheckpt s' = Some \<lparr>Epoch = 1, Root = root_of 1\<rparr> \<and>
        finalizedCheckpt s' = Some \<lparr>Epoch = 1, Root = root_of 1\<rparr>"
proof -
  have h: "HistoricalStateFromSlot ex_env_justifying (db ex_store) 128 (root_of 1)
             = Inr (Some ex_state)"
    by (simp add: ex_env_justifying_def ex_env_def ex_store_def ex_db_def ex_genesis_db_def
        empty_BeaconDB_def)
  have t: "\<not> GenesisTime ex_state + 128 * SecondsPerSlot ex_env_justifying > time ex_store"
    by (simp add: ex_state_def ex_env_justifying_def ex_env_def ex_store_def)
  have e: "root_of 129 \<notin> evil (db ex_store)"
    by (simp add: ex_store_def ex_db_def ex_genesis_db_def empty_BeaconDB_def)
  have f: "finalizedCheckpt ex_store = Some \<lparr>Epoch = 0, Root = root_of 1\<rparr>"
    "justifiedCheckpt ex_store = Some \<lparr>Epoch = 0, Root = root_of 1\<rparr>"
    by (simp_all add: ex_store_def)
  have c: "blockCache (db ex_store) = Map.empty"
    "blocks (db ex_store) (root_of 1) = Some ex_genesis"
    by (simp_all add: ex_store_def ex_db_def ex_genesis_db_def empty_BeaconDB_def root_of_inj)
  have g: "Slot ex_genesis = 0" by (simp add: ex_genesis_def zero_BeaconBlock_def)
  have st: "StartSlot ex_env_justifying 0 = 0" by (simp add: StartSlot_def)
  have hs: "HashTreeRoot_state ex_env_justifying st
              = Inr (root_of (ucast (state_Slot st) + 201))" for st
    by (simp add: ex_env_justifying_def ex_env_def)
  show ?thesis
    by (simp add: OnBlock_def OnBlock_finalized_def Let_def ex_fork_fields ToBytes32_root_of
        h t SaveBlock_def e f c Block_def root_of_inj g ex_fork_ancestor st
        ex_fork_transition SaveState_def hs)
qed

theorem OnBlock_keeps_roots_witness:
  "\<exists>s'. OnBlock ex_env_justifying ex_store ex_fork = Some (s', None) \<and>
     CurrentJustifiedCheckpoint
       (projr (ExecuteStateTransition ex_env_justifying ex_state (Some ex_fork) DefaultConfig))
       = \<lparr>Epoch = 1, Root = root_of 65\<rparr> \<and>
     FinalizedCheckpoint
       (projr (ExecuteStateTransition ex_env_justifying ex_state (Some ex_fork) DefaultConfig))
       = \<lparr>Epoch = 1, Root = root_of 65\<rparr> \<and>
     justifiedCheckpt ex_store = Some \<lparr>Epoch = 0, Root = root_of 1\<rparr> \<and>
     finalizedCheckpt ex_store = Some \<lparr>Epoch = 0, Root = root_of 1\<rparr> \<and>
     justifiedCheckpt s' = Some \<lparr>Epoch = 1, Root = root_of 1\<rparr> \<and>
     finalizedCheckpt s' = Some \<lparr>Epoch = 1, Root = root_of 1\<rparr> \<and>
     map_option Root (justifiedCheckpt s') = map_option Root (justifiedCheckpt ex_store) \<and>
     map_option Root (finalizedCheckpt s') = map_option Root (finalizedCheckpt ex_store)"
proof -
  from ex_fork_OnBlock obtain s' where
    s': "OnBlock ex_env_justifying ex_store ex_fork = Some (s', None)"
      "justifiedCheckpt s' = Some \<lparr>Epoch = 1, Root = root_of 1\<rparr>"
      "finalizedCheckpt s' = Some \<lparr>Epoch = 1, Root = root_of 1\<rparr>" by blast
  have j: "justifiedCheckpt ex_store = Some \<lparr>Epoch = 0, Root = root_of 1\<rparr>"
    "finalizedCheckpt ex_store = Some \<lparr>Epoch = 0, Root = root_of 1\<rparr>"
    by (simp_all add: ex_store_def)
  from OnBlock_keeps_roots [OF s'(1)] s' j show ?thesis
    by (simp add: ex_fork_transition)
qed

subsection \<open>The latest messages\<close>

lemma OnAttestation_keeps_latest_messages:
  "latestMessages (db (fst (OnAttestation env s a))) = latestMessages (db s)"
  by (auto simp: OnAttestation_def Let_def OnAttestation_checkpoint_def SaveCheckpointState_def
      zero_IndexedAttestation_def split: sum.splits option.splits prod.splits if_splits)

lemma ex_att_accepted: "snd (OnAttestation ex_env ex_store ex_att) = None"
proof -
  have d: "Target (Data ex_att) = \<lparr>Epoch = 0, Root = root_of 1\<rparr>"
    "BeaconBlockRoot (Data ex_att) = root_of 2"
    by (simp_all add: ex_att_def)
  have b: "HasBlock (db ex_store) (root_of 1)"
    by (simp add: HasBlock_def Block_def ex_store_def ex_db_def ex_genesis_db_def
        empty_BeaconDB_def root_of_inj)
  have st: "StartSlot ex_env 0 = 0" by (simp add: StartSlot_def)
  have h: "HistoricalStateFromSlot ex_env (db ex_store) 0 (root_of 1) = Inr (Some ex_state)"
    by (simp add: ex_env_def ex_store_def ex_db_def ex_genesis_db_def empty_BeaconDB_def)
  have c: "HasCheckpoint (db ex_store) \<lparr>Epoch = 0, Root = root_of 1\<rparr> = Inr False"
    by (simp add: HasCheckpoint_def ex_store_def ex_db_def ex_genesis_db_def empty_BeaconDB_def)
  have e: "ProcessSlots ex_env ex_state 0 = Inr ex_state"
    "AttestationDataSlot ex_env ex_state x = Inr 0"
    "VerifyIndexedAttestation ex_env y True = None"
    "SecondsPerSlot ex_env = 6" for x y
    by (simp_all add: ex_env_def ex_state_def)
  have t: "GenesisTime ex_state = 1000" "time ex_store = 2000"
    by (simp_all add: ex_state_def ex_store_def)
  show ?thesis
    by (simp add: OnAttestation_def Let_def d ToBytes32_root_of b st h c
        OnAttestation_checkpoint_def e SaveCheckpointState_def t zero_IndexedAttestation_def)
qed

text \<open>
  Claim C1, on the code. \<open>OnAttestation\<close> stores no latest message: the indexed
  attestation it ranges over is the empty \<open>&pb.IndexedAttestation{}\<close>, so whatever the
  attestation and the result of the call, the latest messages of the store after the
  call are those before it. In particular \<open>ex_att\<close> is accepted without error on a
  store in which no validator has a latest message, and afterwards still no validator
  has one.
\<close>

theorem OnAttestation_stores_no_message:
  "latestMessages (db (fst (OnAttestation env s a))) = latestMessages (db s) \<and>
   snd (OnAttestation ex_env ex_store ex_att) = None \<and>
   latestMessages (db ex_store) = Map.empty \<and>
   \<not> HasLatestMessage (db (fst (OnAttestation ex_env ex_store ex_att))) i"
proof -
  have e: "latestMessages (db ex_store) = Map.empty"
    by (simp add: ex_store_def ex_db_def ex_genesis_db_def empty_BeaconDB_def)
  then show ?thesis
    by (simp add: OnAttestation_keeps_latest_messages ex_att_accepted HasLatestMessage_def)
qed

subsection \<open>The head\<close>

lemma Head_children_length:
  "Head_children s head js roots children = Inr cs \<Longrightarrow> length children \<le> length cs"
proof (induction roots arbitrary: children)
  case Nil
  then show ?case by simp
next
  case (Cons r roots)
  then show ?case
    by (fastforce split: sum.splits option.splits if_splits)
qed

lemma Head_loop_never_root:
  "Head_loop env s head js = Some y \<Longrightarrow> \<exists>e. y = Inl e"
proof (induction rule: Head_loop.raw_induct [rotated 1, consumes 1])
  case (1 Head_loop' env s head js y)
  show ?case
  proof (cases "Head_children s head js [[]] [[]]")
    case (Inl e)
    with "1"(2) show ?thesis by (auto simp del: Head_children.simps)
  next
    case (Inr children)
    from Head_children_length [OF Inr] have len: "length children \<noteq> 0" by auto
    show ?thesis
    proof (cases "LatestAttestingBalance env s (hd children)")
      case None
      with "1"(2) Inr len show ?thesis by (auto simp del: Head_children.simps)
    next
      case (Some bal)
      show ?thesis
      proof (cases bal)
        case (Inl e)
        with "1"(2) Inr len Some show ?thesis by (auto simp del: Head_children.simps)
      next
        case (Inr highest)
        with "1"(2) \<open>Head_children s head js [[]] [[]] = Inr children\<close> len Some
        show ?thesis
          by (auto simp del: Head_children.simps split: option.splits sum.splits
              dest: "1"(1))
      qed
    qed
  qed
qed

lemma Head_never_root: "Head env s \<noteq> Some (Inr r)"
  by (auto simp: Head_def split: option.splits dest: Head_loop_never_root)

lemma Head_ex_store: "Head ex_env ex_store = Some (Inl (Panic ''nil pointer dereference''))"
proof -
  have b: "Block (db ex_store) (ToBytes32 []) = Inr None"
    by (simp add: Block_def ex_store_def ex_db_def ex_genesis_db_def empty_BeaconDB_def
        root_of_inj ToBytes32_Nil)
  have j: "justifiedCheckpt ex_store = Some \<lparr>Epoch = 0, Root = root_of 1\<rparr>"
    by (simp add: ex_store_def)
  show ?thesis
    by (simp add: Head_def j) (subst Head_loop.simps, simp add: b)
qed

text \<open>
  Claim C2, on the code. \<open>Head\<close> never returns a root: \<open>children\<close> starts from the stub
  \<open>[][]byte{{}}\<close> and is never empty, and the chosen child is assigned to a variable of
  the loop body, so the call ends with an error or a panic, or does not end. On the
  store of the instance, whose justified root is the genesis block with one child, it
  panics on the block of the stub root, which is not stored.
\<close>

theorem Head_never_returns_root:
  "Head env s \<noteq> Some (Inr r) \<and>
   Head ex_env ex_store = Some (Inl (Panic ''nil pointer dereference''))"
  by (simp add: Head_never_root Head_ex_store)

end
